theory Spec2Isabelle
  imports Main "HOL-Library.Sublist" "HOL-Library.Multiset" "HOL-Library.AList" "HOL-Library.Word"
begin

section \<open>Strings\<close>

text \<open>
  Python strings are modelled as \<open>string\<close> (a list of 8-bit characters).  \<open>str.lower\<close> is
  modelled on the ASCII letters; every other character is left as it is.  (No character outside
  ASCII lower-cases to one of the letters of \<open>mysql\<close> or \<open>sqlite\<close>.)
\<close>

definition lower_char :: "char \<Rightarrow> char" where
  "lower_char c =
     (case map_of (zip ''ABCDEFGHIJKLMNOPQRSTUVWXYZ'' ''abcdefghijklmnopqrstuvwxyz'') c of
        None \<Rightarrow> c
      | Some d \<Rightarrow> d)"

definition lower :: "string \<Rightarrow> string" where
  "lower s = map lower_char s"

text \<open>
  \<open>str.replace(old, new)\<close>: all non-overlapping occurrences of \<open>old\<close>, scanning from the left.
  With an empty \<open>old\<close> Python puts \<open>new\<close> before every character and at the end.
\<close>

function str_replace :: "string \<Rightarrow> string \<Rightarrow> string \<Rightarrow> string" where
  "str_replace old new s =
     (if old = [] then new @ concat (map (\<lambda>c. c # new) s)
      else if s = [] then []
      else if prefix old s then new @ str_replace old new (drop (length old) s)
      else hd s # str_replace old new (tl s))"
  by pat_completeness auto
termination
  by (relation "measure (\<lambda>(old, new, s). length s)") (auto simp: prefix_def)

declare str_replace.simps [simp del]

text \<open>\<open>occurs p s\<close>: the text \<open>p\<close> occurs somewhere in \<open>s\<close> (Python's \<open>p in s\<close>).\<close>

fun occurs :: "string \<Rightarrow> string \<Rightarrow> bool" where
  "occurs p [] = (p = [])"
| "occurs p (c # cs) = (prefix p (c # cs) \<or> occurs p cs)"

section \<open>JSON values and Python's view of them\<close>

text \<open>
  What \<open>json.loads\<close> returns: \<open>None\<close>, a bool, an int, a str, a list or a dict.  A dict keeps
  its keys in insertion order, each key once; it is an association list.  Numbers with a
  fraction (Python floats) are not modelled.
\<close>

datatype json =
    JNull
  | JBool bool
  | JInt int
  | JStr string
  | JArr "json list"
  | JObj "(string \<times> json) list"

text \<open>Python's truth value of a JSON value (\<open>not v\<close> is its negation).\<close>

fun truthy :: "json \<Rightarrow> bool" where
  "truthy JNull = False"
| "truthy (JBool b) = b"
| "truthy (JInt i) = (i \<noteq> 0)"
| "truthy (JStr s) = (s \<noteq> [])"
| "truthy (JArr xs) = (xs \<noteq> [])"
| "truthy (JObj kvs) = (kvs \<noteq> [])"

text \<open>\<open>d.get(k)\<close> (absent gives \<open>None\<close>) and \<open>d.get(k, dflt)\<close>.\<close>

definition dict_get :: "(string \<times> json) list \<Rightarrow> string \<Rightarrow> json" where
  "dict_get d k = (case map_of d k of None \<Rightarrow> JNull | Some v \<Rightarrow> v)"

definition dict_get_default :: "(string \<times> json) list \<Rightarrow> string \<Rightarrow> json \<Rightarrow> json" where
  "dict_get_default d k dflt = (case map_of d k of None \<Rightarrow> dflt | Some v \<Rightarrow> v)"

text \<open>Decimal digits of an int, as \<open>str\<close> prints it.\<close>

fun dec_nat :: "nat \<Rightarrow> string" where
  "dec_nat n =
     (if n < 10 then [''0123456789'' ! n]
      else dec_nat (n div 10) @ [''0123456789'' ! (n mod 10)])"

declare dec_nat.simps [simp del]

definition dec_int :: "int \<Rightarrow> string" where
  "dec_int i = (if i < 0 then CHR ''-'' # dec_nat (nat (- i)) else dec_nat (nat i))"

text \<open>
  \<open>repr\<close> of a str: single quotes, unless the text has a single quote and no double quote;
  backslash, the chosen quote, tab, newline and carriage return are escaped.  (Python also
  escapes the other control characters; that detail is left out, it never decides anything
  below: inside a list or dict the text always starts with a bracket or a brace.)
\<close>

definition repr_str :: "string \<Rightarrow> string" where
  "repr_str s =
     (let q = (if CHR 0x27 \<in> set s \<and> CHR 0x22 \<notin> set s then CHR 0x22 else CHR 0x27);
          esc = (\<lambda>c. if c = CHR 0x5C then [CHR 0x5C, CHR 0x5C]
                      else if c = q then [CHR 0x5C, q]
                      else if c = CHR 0x09 then [CHR 0x5C, CHR ''t'']
                      else if c = CHR 0x0A then [CHR 0x5C, CHR ''n'']
                      else if c = CHR 0x0D then [CHR 0x5C, CHR ''r'']
                      else [c])
      in q # concat (map esc s) @ [q])"

fun join :: "string \<Rightarrow> string list \<Rightarrow> string" where
  "join sep [] = []"
| "join sep [x] = x"
| "join sep (x # y # ys) = x @ sep @ join sep (y # ys)"

text \<open>\<open>repr(v)\<close> and \<open>str(v)\<close>; they differ on a str only.\<close>

fun py_repr :: "json \<Rightarrow> string" where
  "py_repr JNull = ''None''"
| "py_repr (JBool b) = (if b then ''True'' else ''False'')"
| "py_repr (JInt i) = dec_int i"
| "py_repr (JStr s) = repr_str s"
| "py_repr (JArr xs) = ''['' @ join '', '' (map py_repr xs) @ '']''"
| "py_repr (JObj kvs) =
     ''{'' @ join '', '' (map (\<lambda>(k, v). repr_str k @ '': '' @ py_repr v) kvs) @ ''}''"

definition py_str :: "json \<Rightarrow> string" where
  "py_str v = (case v of JStr s \<Rightarrow> s | _ \<Rightarrow> py_repr v)"

section \<open>Errors\<close>

text \<open>
  Every exception the modelled code can raise is a value.  The three \<open>ValueError\<close>s raised by
  \<open>_load_params\<close> and the one raised by \<open>get_connection\<close> are told apart by their message;
  \<open>MissingMySQLFields\<close> carries the list that the message prints.  \<open>OverflowError\<close> is what
  the \<open>sqlite3\<close> driver raises for a Python int that does not fit its 64-bit integers.
  \<open>DatabaseError\<close> stands for whatever else a driver raises: a connection it cannot open, a
  statement the engine refuses.
\<close>

datatype value_error =
    BadEngine
  | MissingMySQLFields "string list"
  | MissingSQLiteDatabase
  | UnsupportedEngine string

datatype error =
    FileNotFoundError
  | ReadError
  | JSONDecodeError
  | AttributeError
  | KeyError string
  | TypeError
  | ValueError value_error
  | OverflowError
  | DatabaseError

section \<open>Configuration: \<open>Database._load_params\<close>\<close>

text \<open>
  The configuration file as \<open>_load_params\<close> meets it: not there, there but unreadable, readable
  but not JSON, or parsed by \<open>json.loads\<close> into a value.
\<close>

datatype config_file = NoFile | Unreadable | Malformed | Parsed json

definition required_keys :: "string list" where
  "required_keys = [''host'', ''user'', ''password'', ''database'']"

text \<open>The engine that the configuration names: \<open>str(data.get("engine", "mysql")).lower()\<close>.\<close>

definition config_engine :: "(string \<times> json) list \<Rightarrow> string" where
  "config_engine data = lower (py_str (dict_get_default data ''engine'' (JStr ''mysql'')))"

definition load_params :: "config_file \<Rightarrow> error + (string \<times> json) list" where
  "load_params cf =
     (case cf of
        NoFile \<Rightarrow> Inl FileNotFoundError
      | Unreadable \<Rightarrow> Inl ReadError
      | Malformed \<Rightarrow> Inl JSONDecodeError
      | Parsed v \<Rightarrow>
          (case v of
             JObj data \<Rightarrow>
               (let eng = config_engine data in
                if eng \<notin> {''mysql'', ''sqlite''} then Inl (ValueError BadEngine)
                else if eng = ''mysql'' then
                  (let missing = filter (\<lambda>k. \<not> truthy (dict_get data k)) required_keys in
                   if missing \<noteq> [] then Inl (ValueError (MissingMySQLFields missing))
                   else if map_of data ''port'' = None \<or> \<not> truthy (dict_get data ''port'')
                     then Inr (AList.update ''port'' (JInt 3306) data)
                     else Inr data)
                else if eng = ''sqlite'' then
                  (if \<not> truthy (dict_get data ''database'')
                   then Inl (ValueError MissingSQLiteDatabase)
                   else Inr data)
                else Inr data)
           | _ \<Rightarrow> Inl AttributeError))"

section \<open>The database object and the backing store\<close>

text \<open>The fields of a \<open>Database\<close> object that the methods read.\<close>

record database =
  params :: "(string \<times> json) list"
  engine :: string

text \<open>
  A row of the table \<open>files\<close>, with the columns of the \<open>CREATE TABLE\<close> statement in
  \<open>_ensure_files_table\<close>.
\<close>

type_synonym bytes = "8 word list"

record file_row =
  row_id :: int
  filename :: string
  mime_type :: string
  file_size :: int
  file_data :: bytes
  sha256 :: string

text \<open>
  The backing store, as far as the statements of the code can see it: whether the engine accepts
  connections, the rows of \<open>files\<close> in storage order, the largest id that \<open>AUTOINCREMENT\<close> /
  \<open>AUTO_INCREMENT\<close> has handed out, the number of compaction passes (\<open>VACUUM\<close>) that have
  run, and whether the engine can run one now (\<open>VACUUM\<close> needs the file for itself and room
  on the disk for a copy of it).  The column \<open>id\<close> is the primary key: in a well-formed store
  no two rows share it.
\<close>

record db_state =
  available :: bool
  rows :: "file_row list"
  seq :: int
  vacuum_runs :: nat
  compactable :: bool

definition wf_state :: "db_state \<Rightarrow> bool" where
  "wf_state st = distinct (map row_id (rows st))"

definition empty_store :: db_state where
  "empty_store =
     \<lparr>available = True, rows = [], seq = 0, vacuum_runs = 0, compactable = True\<rparr>"

subsection \<open>What the engine does with each statement\<close>

text \<open>
  The two engines are libraries outside the code.  Each statement of \<open>sql.py\<close> is modelled by
  what \<open>cursor.execute\<close> does with it: the driver binds the parameters, then the engine
  does to the table what SQL says.  The text of the statement, which goes through
  \<open>_prepare_sql\<close> on the way to the driver, is not interpreted.

  The failures that are modelled: a connection that cannot be opened (the flag \<open>available\<close>
  of the store); under \<open>sqlite\<close>, an int parameter outside the signed 64-bit range, which
  the driver refuses with \<open>OverflowError\<close> before the statement runs, and an \<open>INSERT\<close> when
  the ids are used up; a \<open>VACUUM\<close> the engine cannot run (the flag \<open>compactable\<close>).  The MySQL
  driver writes an int into the statement in decimal, whatever its size.  Beyond that the
  engine stores every value as it is given: the widths of the MySQL columns, the largest blob
  an engine accepts and a disk that fills up in the middle of a statement are left out.
\<close>

definition int64 :: "int \<Rightarrow> bool" where
  "int64 i \<longleftrightarrow> - (2 ^ 63) \<le> i \<and> i < 2 ^ 63"

text \<open>Binding an int parameter of a statement.\<close>

definition bind_int :: "database \<Rightarrow> int \<Rightarrow> error + unit" where
  "bind_int db i = (if engine db = ''sqlite'' \<and> \<not> int64 i then Inl OverflowError else Inr ())"

datatype sqlval = VInt int | VText string | VBlob bytes

datatype column = ColId | ColFilename | ColMimeType | ColFileSize | ColFileData | ColSha256

fun column_name :: "column \<Rightarrow> string" where
  "column_name ColId = ''id''"
| "column_name ColFilename = ''filename''"
| "column_name ColMimeType = ''mime_type''"
| "column_name ColFileSize = ''file_size''"
| "column_name ColFileData = ''file_data''"
| "column_name ColSha256 = ''sha256''"

fun column_value :: "file_row \<Rightarrow> column \<Rightarrow> sqlval" where
  "column_value r ColId = VInt (row_id r)"
| "column_value r ColFilename = VText (filename r)"
| "column_value r ColMimeType = VText (mime_type r)"
| "column_value r ColFileSize = VInt (file_size r)"
| "column_value r ColFileData = VBlob (file_data r)"
| "column_value r ColSha256 = VText (sha256 r)"

text \<open>
  The \<open>SELECT\<close> statements of the code all have the shape
  \<open>SELECT columns FROM files [WHERE id = ?] [ORDER BY id DESC] [LIMIT n]\<close>.
  A result row is the dict that \<open>query\<close> returns for it: column name to value, in the order of
  the column list.
\<close>

record select_stmt =
  sel_columns :: "column list"
  sel_where_id :: "int option"
  sel_order_by_id_desc :: bool
  sel_limit :: "nat option"

type_synonym result_row = "(string \<times> sqlval) list"

definition project :: "column list \<Rightarrow> file_row \<Rightarrow> result_row" where
  "project cols r = map (\<lambda>c. (column_name c, column_value r c)) cols"

definition run_select :: "select_stmt \<Rightarrow> file_row list \<Rightarrow> result_row list" where
  "run_select q rs =
     (let matched = (case sel_where_id q of None \<Rightarrow> rs | Some i \<Rightarrow> filter (\<lambda>r. row_id r = i) rs);
          ordered = (if sel_order_by_id_desc q then sort_key (\<lambda>r. - row_id r) matched else matched);
          limited = (case sel_limit q of None \<Rightarrow> ordered | Some n \<Rightarrow> take n ordered)
      in map (project (sel_columns q)) limited)"

text \<open>
  Executing a \<open>SELECT\<close>: its only parameter, when it has one, is the id of the \<open>WHERE\<close>
  clause.
\<close>

definition sql_select ::
  "database \<Rightarrow> select_stmt \<Rightarrow> file_row list \<Rightarrow> error + result_row list" where
  "sql_select db q rs =
     (case sel_where_id q of
        None \<Rightarrow> Inr (run_select q rs)
      | Some i \<Rightarrow>
          (case bind_int db i of
             Inl e \<Rightarrow> Inl e
           | Inr _ \<Rightarrow> Inr (run_select q rs)))"

text \<open>
  \<open>INSERT INTO files (filename, mime_type, file_size, file_data, sha256) VALUES (...)\<close>: the
  one int parameter is the file size.  The engine assigns the id, one more than the largest
  id it has handed out or that is in the table, and reports it as \<open>lastrowid\<close>.  SQLite keeps
  its ids in the signed 64-bit range: when the next id would leave it, the \<open>INSERT\<close> fails.
\<close>

definition high_water :: "db_state \<Rightarrow> int" where
  "high_water st = fold max (map row_id (rows st)) (seq st)"

definition sql_insert ::
  "database \<Rightarrow> string \<Rightarrow> string \<Rightarrow> int \<Rightarrow> bytes \<Rightarrow> string \<Rightarrow> db_state
     \<Rightarrow> error + int \<times> db_state" where
  "sql_insert db fname mtype fsize fdata sha st =
     (case bind_int db fsize of
        Inl e \<Rightarrow> Inl e
      | Inr _ \<Rightarrow>
          (let new_id = high_water st + 1;
               r = \<lparr>row_id = new_id, filename = fname, mime_type = mtype, file_size = fsize,
                    file_data = fdata, sha256 = sha\<rparr>
           in if engine db = ''sqlite'' \<and> \<not> int64 new_id then Inl DatabaseError
              else Inr (new_id, st\<lparr>rows := rows st @ [r], seq := new_id\<rparr>)))"

text \<open>
  \<open>DELETE FROM files WHERE id = ?\<close>: the parameter is the id; the first component of the
  result is \<open>rowcount\<close>.
\<close>

definition sql_delete :: "database \<Rightarrow> int \<Rightarrow> db_state \<Rightarrow> error + nat \<times> db_state" where
  "sql_delete db i st =
     (case bind_int db i of
        Inl e \<Rightarrow> Inl e
      | Inr _ \<Rightarrow>
          Inr (length (filter (\<lambda>r. row_id r = i) (rows st)),
               st\<lparr>rows := filter (\<lambda>r. row_id r \<noteq> i) (rows st)\<rparr>))"

text \<open>
  \<open>VACUUM\<close>: one compaction pass, when the engine can run it; the rows stay as they are.
\<close>

definition sql_vacuum :: "db_state \<Rightarrow> error + db_state" where
  "sql_vacuum st =
     (if compactable st then Inr (st\<lparr>vacuum_runs := vacuum_runs st + 1\<rparr>)
      else Inl DatabaseError)"

section \<open>The methods of \<open>Database\<close>\<close>

text \<open>
  A method that only reads returns \<open>error + result\<close>.  A method that writes returns its outcome
  together with the store it leaves behind, also when it raises: what was committed before the
  exception stays committed, and a statement that raised has changed nothing.
\<close>

text \<open>
  \<open>_sqlite_path\<close> reads \<open>params["database"]\<close> and makes a \<open>Path\<close> of it, which needs a str.
  Resolving the path against the directory of the configuration file and creating the parent
  directories is the file system's part; when it fails, the store is not \<open>available\<close>.
\<close>

definition sqlite_path :: "database \<Rightarrow> error + string" where
  "sqlite_path db =
     (case map_of (params db) ''database'' of
        None \<Rightarrow> Inl (KeyError ''database'')
      | Some (JStr p) \<Rightarrow> Inr p
      | Some _ \<Rightarrow> Inl TypeError)"

text \<open>
  \<open>get_connection\<close>: for \<open>mysql\<close> the five parameters are read in the order of the call
  (the first absent one is the \<open>KeyError\<close>); an engine that is neither \<open>mysql\<close> nor
  \<open>sqlite\<close> is the \<open>ValueError\<close> of the last line.  The connection itself carries nothing
  the model needs.
\<close>

definition get_connection :: "database \<Rightarrow> db_state \<Rightarrow> error + unit" where
  "get_connection db st =
     (if engine db = ''mysql'' then
        (case filter (\<lambda>k. map_of (params db) k = None)
                [''host'', ''port'', ''user'', ''password'', ''database''] of
           k # _ \<Rightarrow> Inl (KeyError k)
         | [] \<Rightarrow> if available st then Inr () else Inl DatabaseError)
      else if engine db = ''sqlite'' then
        (case sqlite_path db of
           Inl e \<Rightarrow> Inl e
         | Inr p \<Rightarrow> if available st then Inr () else Inl DatabaseError)
      else Inl (ValueError (UnsupportedEngine (engine db))))"

definition prepare_sql :: "database \<Rightarrow> string \<Rightarrow> string" where
  "prepare_sql db sql = (if engine db = ''sqlite'' then str_replace ''%s'' ''?'' sql else sql)"

text \<open>
  \<open>query\<close>: with either engine the rows come back as a list of dicts (a dictionary cursor for
  \<open>mysql\<close>, \<open>sqlite3.Row\<close> turned into \<open>dict\<close> for \<open>sqlite\<close>).
\<close>

definition query :: "database \<Rightarrow> db_state \<Rightarrow> select_stmt \<Rightarrow> error + result_row list" where
  "query db st q =
     (case get_connection db st of
        Inl e \<Rightarrow> Inl e
      | Inr _ \<Rightarrow> sql_select db q (rows st))"

definition insert_file ::
  "database \<Rightarrow> db_state \<Rightarrow> string \<Rightarrow> string \<Rightarrow> int \<Rightarrow> bytes \<Rightarrow> string
     \<Rightarrow> (error + int) \<times> db_state" where
  "insert_file db st fname mtype fsize fdata sha =
     (case get_connection db st of
        Inl e \<Rightarrow> (Inl e, st)
      | Inr _ \<Rightarrow>
          (case sql_insert db fname mtype fsize fdata sha st of
             Inl e \<Rightarrow> (Inl e, st)
           | Inr (lastrowid, st') \<Rightarrow> (Inr lastrowid, st')))"

definition get_all_files :: "database \<Rightarrow> db_state \<Rightarrow> error + result_row list" where
  "get_all_files db st =
     query db st
       \<lparr>sel_columns = [ColId, ColFilename, ColMimeType, ColFileSize, ColSha256],
        sel_where_id = None, sel_order_by_id_desc = True, sel_limit = None\<rparr>"

text \<open>\<open>rows[0] if rows else None\<close>\<close>

definition first_or_none :: "'a list \<Rightarrow> 'a option" where
  "first_or_none xs = (case xs of [] \<Rightarrow> None | x # _ \<Rightarrow> Some x)"

definition get_file_by_id :: "database \<Rightarrow> db_state \<Rightarrow> int \<Rightarrow> error + result_row option" where
  "get_file_by_id db st file_id =
     (case query db st
             \<lparr>sel_columns = [ColId, ColFilename, ColMimeType, ColFileSize, ColFileData, ColSha256],
              sel_where_id = Some file_id, sel_order_by_id_desc = False, sel_limit = None\<rparr> of
        Inl e \<Rightarrow> Inl e
      | Inr rs \<Rightarrow> Inr (first_or_none rs))"

definition get_last_file :: "database \<Rightarrow> db_state \<Rightarrow> error + result_row option" where
  "get_last_file db st =
     (case query db st
             \<lparr>sel_columns = [ColId, ColFilename, ColMimeType, ColFileSize, ColFileData, ColSha256],
              sel_where_id = None, sel_order_by_id_desc = True, sel_limit = Some 1\<rparr> of
        Inl e \<Rightarrow> Inl e
      | Inr rs \<Rightarrow> Inr (first_or_none rs))"

text \<open>
  \<open>vacuum\<close> and \<open>delete_file\<close>.  The delete is committed and its connection closed before
  the compaction opens its own: when the compaction raises, \<open>delete_file\<close> raises with the row
  already removed.
\<close>

definition vacuum :: "database \<Rightarrow> db_state \<Rightarrow> (error + unit) \<times> db_state" where
  "vacuum db st =
     (if engine db \<noteq> ''sqlite'' then (Inr (), st)
      else (case get_connection db st of
              Inl e \<Rightarrow> (Inl e, st)
            | Inr _ \<Rightarrow>
                (case sql_vacuum st of
                   Inl e \<Rightarrow> (Inl e, st)
                 | Inr st' \<Rightarrow> (Inr (), st'))))"

definition delete_file ::
  "database \<Rightarrow> db_state \<Rightarrow> int \<Rightarrow> bool \<Rightarrow> (error + bool) \<times> db_state" where
  "delete_file db st file_id vacuum_after =
     (case get_connection db st of
        Inl e \<Rightarrow> (Inl e, st)
      | Inr _ \<Rightarrow>
          (case sql_delete db file_id st of
             Inl e \<Rightarrow> (Inl e, st)
           | Inr (rows_affected, st1) \<Rightarrow>
               if rows_affected = 0 then (Inr False, st1)
               else if vacuum_after \<and> engine db = ''sqlite'' then
                 (case vacuum db st1 of
                    (Inl e, st2) \<Rightarrow> (Inl e, st2)
                  | (Inr _, st2) \<Rightarrow> (Inr True, st2))
               else (Inr True, st1)))"

text \<open>
  \<open>_ensure_files_table\<close>: \<open>CREATE TABLE IF NOT EXISTS files\<close>.  The table of the model is there
  from the start (empty in \<open>empty_store\<close>), so the statement changes nothing; the connection
  it needs can still fail.
\<close>

definition ensure_files_table :: "database \<Rightarrow> db_state \<Rightarrow> (error + unit) \<times> db_state" where
  "ensure_files_table db st =
     (case get_connection db st of
        Inl e \<Rightarrow> (Inl e, st)
      | Inr _ \<Rightarrow> (Inr (), st))"

text \<open>
  \<open>Database.__init__\<close>: load the parameters, read the engine from them
  (\<open>self.params.get("engine", "mysql").lower()\<close>, which needs a str), create the table.
\<close>

definition database_init :: "config_file \<Rightarrow> db_state \<Rightarrow> (error + database) \<times> db_state" where
  "database_init cf st =
     (case load_params cf of
        Inl e \<Rightarrow> (Inl e, st)
      | Inr ps \<Rightarrow>
          (case dict_get_default ps ''engine'' (JStr ''mysql'') of
             JStr s \<Rightarrow>
               (let db = \<lparr>params = ps, engine = lower s\<rparr> in
                case ensure_files_table db st of
                  (Inl e, st') \<Rightarrow> (Inl e, st')
                | (Inr _, st') \<Rightarrow> (Inr db, st'))
           | _ \<Rightarrow> (Inl AttributeError, st)))"

subsection \<open>Sequences of writes\<close>

text \<open>
  A client that calls the writing methods one after the other, whatever each call returns.
  (The reading methods leave the store as it is.)
\<close>

datatype command =
    CInsert string string int bytes string
  | CDelete int bool
  | CVacuum

fun exec :: "database \<Rightarrow> command \<Rightarrow> db_state \<Rightarrow> db_state" where
  "exec db (CInsert fname mtype fsize fdata sha) st = snd (insert_file db st fname mtype fsize fdata sha)"
| "exec db (CDelete i v) st = snd (delete_file db st i v)"
| "exec db CVacuum st = snd (vacuum db st)"

definition run :: "database \<Rightarrow> command list \<Rightarrow> db_state \<Rightarrow> db_state" where
  "run db cmds st = fold (exec db) cmds st"

section \<open>Placeholder translation: \<open>_prepare_sql\<close>\<close>

text \<open>
  The replacement that \<open>_prepare_sql\<close> applies for the embedded engine, one character at a
  time.
\<close>

lemma replace_placeholder_Nil: "str_replace ''%s'' ''?'' [] = []"
  by (simp add: str_replace.simps)

lemma replace_placeholder_Cons:
  "str_replace ''%s'' ''?'' (c # cs) =
     (if c = CHR ''%'' \<and> (\<exists>t. cs = CHR ''s'' # t)
      then CHR ''?'' # str_replace ''%s'' ''?'' (tl cs)
      else c # str_replace ''%s'' ''?'' cs)"
  by (subst str_replace.simps) (auto simp: prefix_def)

lemma replace_placeholder_absent:
  "\<not> occurs ''%s'' s \<Longrightarrow> str_replace ''%s'' ''?'' s = s"
  by (induction s) (auto simp: replace_placeholder_Nil replace_placeholder_Cons)

lemma replace_placeholder_append:
  "str_replace ''%s'' ''?'' (a @ ''%s'' @ b) =
     str_replace ''%s'' ''?'' a @ ''?'' @ str_replace ''%s'' ''?'' b"
proof (induction a rule: length_induct)
  case (1 a)
  show ?case
  proof (cases a)
    case Nil
    then show ?thesis
      by (simp add: replace_placeholder_Nil replace_placeholder_Cons)
  next
    case (Cons c cs)
    show ?thesis
    proof (cases "c = CHR ''%'' \<and> (\<exists>t. cs = CHR ''s'' # t)")
      case True
      then obtain t where t: "cs = CHR ''s'' # t" by blast
      have "length t < length a" using Cons t by simp
      with 1 have "str_replace ''%s'' ''?'' (t @ ''%s'' @ b) =
          str_replace ''%s'' ''?'' t @ ''?'' @ str_replace ''%s'' ''?'' b"
        by blast
      then show ?thesis using Cons True t by (simp add: replace_placeholder_Cons)
    next
      case False
      have "length cs < length a" using Cons by simp
      with 1 have "str_replace ''%s'' ''?'' (cs @ ''%s'' @ b) =
          str_replace ''%s'' ''?'' cs @ ''?'' @ str_replace ''%s'' ''?'' b"
        by blast
      then show ?thesis using Cons False
        by (cases cs) (auto simp add: replace_placeholder_Cons)
    qed
  qed
qed

lemma replace_placeholder_starts_s:
  "str_replace ''%s'' ''?'' s = CHR ''s'' # t \<Longrightarrow> \<exists>u. s = CHR ''s'' # u"
  by (cases s) (auto simp: replace_placeholder_Nil replace_placeholder_Cons split: if_splits)

lemma replace_placeholder_clean: "\<not> occurs ''%s'' (str_replace ''%s'' ''?'' s)"
proof (induction s rule: length_induct)
  case (1 s)
  show ?case
  proof (cases s)
    case Nil
    then show ?thesis by (simp add: replace_placeholder_Nil)
  next
    case (Cons c cs)
    show ?thesis
    proof (cases "c = CHR ''%'' \<and> (\<exists>t. cs = CHR ''s'' # t)")
      case True
      then obtain t where t: "cs = CHR ''s'' # t" by blast
      have "length t < length s" using Cons t by simp
      with 1 have "\<not> occurs ''%s'' (str_replace ''%s'' ''?'' t)" by blast
      then show ?thesis using Cons True t by (simp add: replace_placeholder_Cons)
    next
      case False
      have "length cs < length s" using Cons by simp
      with 1 have ih: "\<not> occurs ''%s'' (str_replace ''%s'' ''?'' cs)" by blast
      have "\<not> prefix ''%s'' (c # str_replace ''%s'' ''?'' cs)"
        using False replace_placeholder_starts_s[of cs] by (auto simp: prefix_def)
      moreover have "str_replace ''%s'' ''?'' (c # cs) = c # str_replace ''%s'' ''?'' cs"
        using False by (simp add: replace_placeholder_Cons)
      ultimately show ?thesis using Cons ih by simp
    qed
  qed
qed

text \<open>
  \<open>occurs\<close> is the usual notion: the pattern sits between some prefix and some suffix.
\<close>

lemma occurs_iff: "occurs p s \<longleftrightarrow> (\<exists>a b. s = a @ p @ b)"
proof (induction s)
  case Nil
  then show ?case by auto
next
  case (Cons c cs)
  show ?case
  proof
    assume "occurs p (c # cs)"
    then consider "prefix p (c # cs)" | "occurs p cs" by auto
    then show "\<exists>a b. c # cs = a @ p @ b"
    proof cases
      case 1
      then obtain b where "c # cs = p @ b" by (auto simp: prefix_def)
      then have "c # cs = [] @ p @ b" by simp
      then show ?thesis by blast
    next
      case 2
      with Cons obtain a b where "cs = a @ p @ b" by blast
      then have "c # cs = (c # a) @ p @ b" by simp
      then show ?thesis by blast
    qed
  next
    assume "\<exists>a b. c # cs = a @ p @ b"
    then obtain a b where ab: "c # cs = a @ p @ b" by blast
    show "occurs p (c # cs)"
    proof (cases a)
      case Nil
      with ab have "prefix p (c # cs)" by (simp add: prefix_def)
      then show ?thesis by simp
    next
      case (Cons x xs)
      with ab have "cs = xs @ p @ b" by simp
      with Cons.IH show ?thesis by auto
    qed
  qed
qed

text \<open>
  C7.  Placeholder translation.  For the client-server engine (\<open>mysql\<close>) the SQL text is
  returned as it is.  For the embedded engine (\<open>sqlite\<close>) every occurrence of \<open>%s\<close> becomes
  \<open>?\<close>: the translation of a text around an occurrence is the translation of what is before
  it, then \<open>?\<close>, then the translation of what is after it; a text without an occurrence is
  returned as it is; and no occurrence of \<open>%s\<close> is left in the result.
\<close>

theorem prepare_sql_translation:
  "(engine db = ''mysql'' \<longrightarrow> prepare_sql db s = s) \<and>
   (engine db = ''sqlite'' \<longrightarrow>
      prepare_sql db (a @ ''%s'' @ b) = prepare_sql db a @ ''?'' @ prepare_sql db b \<and>
      (\<not> occurs ''%s'' s \<longrightarrow> prepare_sql db s = s) \<and>
      \<not> occurs ''%s'' (prepare_sql db s))"
  using replace_placeholder_append [of a b] replace_placeholder_absent [of s]
    replace_placeholder_clean [of s]
  by (simp add: prepare_sql_def)

text \<open>
  At concrete inputs: a \<open>DELETE\<close> under \<open>mysql\<close>, an \<open>INSERT\<close> tail and \<open>VACUUM\<close> under
  \<open>sqlite\<close>.
\<close>

theorem prepare_sql_translation_witness:
  "engine \<lparr>params = [], engine = ''mysql''\<rparr> = ''mysql'' \<and>
   prepare_sql \<lparr>params = [], engine = ''mysql''\<rparr> ''DELETE FROM files WHERE id = %s''
     = ''DELETE FROM files WHERE id = %s'' \<and>
   engine \<lparr>params = [], engine = ''sqlite''\<rparr> = ''sqlite'' \<and>
   prepare_sql \<lparr>params = [], engine = ''sqlite''\<rparr> (''VALUES ('' @ ''%s'' @ '', %s)'')
     = ''VALUES (?, ?)'' \<and>
   \<not> occurs ''%s'' ''VACUUM'' \<and>
   prepare_sql \<lparr>params = [], engine = ''sqlite''\<rparr> ''VACUUM'' = ''VACUUM'' \<and>
   \<not> occurs ''%s'' (prepare_sql \<lparr>params = [], engine = ''sqlite''\<rparr> ''VACUUM'')"
  using prepare_sql_translation [of "\<lparr>params = [], engine = ''mysql''\<rparr>"
      "''DELETE FROM files WHERE id = %s''" "[]" "[]"]
    prepare_sql_translation [of "\<lparr>params = [], engine = ''sqlite''\<rparr>"
      "''VACUUM''" "''VALUES (''" "'', %s)''"]
  by (simp add: prepare_sql_def replace_placeholder_Nil replace_placeholder_Cons)

section \<open>Configuration\<close>

subsection \<open>Which engine values are recognized\<close>

text \<open>
  \<open>str(v).lower()\<close> is \<open>mysql\<close> or \<open>sqlite\<close> only for a str \<open>v\<close>: the text of \<open>None\<close>, of a
  bool, of an int, of a list and of a dict starts with a character that is neither \<open>m\<close> nor
  \<open>s\<close> in either case.
\<close>

lemma lower_char_m: "lower_char c = CHR ''m'' \<longleftrightarrow> c = CHR ''m'' \<or> c = CHR ''M''"
  by (auto simp: lower_char_def split: if_splits)

lemma lower_char_s: "lower_char c = CHR ''s'' \<longleftrightarrow> c = CHR ''s'' \<or> c = CHR ''S''"
  by (auto simp: lower_char_def split: if_splits)

lemma lower_recognised_hd:
  "lower s \<in> {''mysql'', ''sqlite''} \<Longrightarrow> s \<noteq> [] \<and> hd s \<in> {CHR ''m'', CHR ''M'', CHR ''s'', CHR ''S''}"
  by (cases s) (auto simp: lower_def lower_char_m lower_char_s)

lemma dec_nat_hd: "dec_nat n \<noteq> [] \<and> hd (dec_nat n) \<in> set ''0123456789''"
proof (induction n rule: dec_nat.induct)
  case (1 n)
  show ?case
  proof (cases "n < 10")
    case True
    then have "n \<in> {0,1,2,3,4,5,6,7,8,9}" by auto
    then show ?thesis by (subst dec_nat.simps, subst (2) dec_nat.simps) auto
  next
    case False
    with 1 show ?thesis by (subst dec_nat.simps, subst (2) dec_nat.simps) auto
  qed
qed

lemma dec_nat_hd_no_letter:
  "hd (dec_nat n) \<notin> {CHR ''m'', CHR ''M'', CHR ''s'', CHR ''S''}"
  using dec_nat_hd [of n] by auto

lemma py_str_hd:
  "(\<forall>s. v \<noteq> JStr s) \<Longrightarrow> hd (py_str v) \<notin> {CHR ''m'', CHR ''M'', CHR ''s'', CHR ''S''}"
proof (cases v)
  case (JInt i)
  then show ?thesis
    using dec_nat_hd_no_letter [of "nat i"] dec_nat_hd_no_letter [of "nat (- i)"]
    by (simp add: py_str_def dec_int_def)
qed (auto simp: py_str_def)

lemma not_str_unrecognised:
  "(\<forall>s. v \<noteq> JStr s) \<Longrightarrow> lower (py_str v) \<notin> {''mysql'', ''sqlite''}"
  using lower_recognised_hd[of "py_str v"] py_str_hd[of v] by blast

lemma config_engine_recognised:
  "config_engine data \<in> {''mysql'', ''sqlite''} \<longleftrightarrow>
     (map_of data ''engine'' = None \<or>
      (\<exists>s. map_of data ''engine'' = Some (JStr s) \<and> lower s \<in> {''mysql'', ''sqlite''}))"
proof (cases "map_of data ''engine''")
  case None
  then show ?thesis
    by (simp add: config_engine_def dict_get_default_def py_str_def lower_def lower_char_def)
next
  case (Some v)
  show ?thesis
  proof (cases "\<exists>s. v = JStr s")
    case True
    then show ?thesis using Some
      by (auto simp: config_engine_def dict_get_default_def py_str_def)
  next
    case False
    then have "lower (py_str v) \<notin> {''mysql'', ''sqlite''}"
      using not_str_unrecognised by blast
    then show ?thesis using Some False
      by (auto simp: config_engine_def dict_get_default_def)
  qed
qed

subsection \<open>What \<open>_load_params\<close> and \<open>__init__\<close> return\<close>

lemma load_params_Inr:
  "load_params cf = Inr ps \<Longrightarrow>
     \<exists>data. cf = Parsed (JObj data) \<and> config_engine data \<in> {''mysql'', ''sqlite''} \<and>
       (ps = data \<or> ps = AList.update ''port'' (JInt 3306) data)"
  by (auto simp: load_params_def Let_def split: config_file.splits json.splits if_splits)

lemma engine_key_kept:
  "ps = data \<or> ps = AList.update ''port'' (JInt 3306) data \<Longrightarrow>
     dict_get_default ps ''engine'' dflt = dict_get_default data ''engine'' dflt"
  by (auto simp: dict_get_default_def update_conv)

lemma database_init_Inr:
  assumes "fst (database_init cf st) = Inr db"
  shows "\<exists>data. cf = Parsed (JObj data) \<and> engine db = config_engine data \<and>
           engine db \<in> {''mysql'', ''sqlite''}"
proof -
  from assms obtain ps where ps: "load_params cf = Inr ps"
    by (cases "load_params cf") (auto simp: database_init_def)
  then obtain data where data: "cf = Parsed (JObj data)"
      "config_engine data \<in> {''mysql'', ''sqlite''}"
      "ps = data \<or> ps = AList.update ''port'' (JInt 3306) data"
    using load_params_Inr by blast
  have eng: "dict_get_default ps ''engine'' (JStr ''mysql'') =
      dict_get_default data ''engine'' (JStr ''mysql'')"
    using data(3) by (rule engine_key_kept)
  from assms ps obtain s where s: "dict_get_default ps ''engine'' (JStr ''mysql'') = JStr s"
      "engine db = lower s"
    by (auto simp: database_init_def Let_def split: json.splits prod.splits sum.splits)
  have "config_engine data = lower s"
    using s(1) eng by (simp add: config_engine_def py_str_def)
  with data s show ?thesis by auto
qed

lemma load_params_mysql:
  "config_engine data = ''mysql'' \<Longrightarrow>
     load_params (Parsed (JObj data)) =
       (if filter (\<lambda>k. \<not> truthy (dict_get data k)) required_keys \<noteq> []
        then Inl (ValueError (MissingMySQLFields (filter (\<lambda>k. \<not> truthy (dict_get data k)) required_keys)))
        else if map_of data ''port'' = None \<or> \<not> truthy (dict_get data ''port'')
          then Inr (AList.update ''port'' (JInt 3306) data)
          else Inr data)"
  by (simp add: load_params_def Let_def)

lemma database_init_load_fails:
  "load_params cf = Inl e \<Longrightarrow> database_init cf st = (Inl e, st)"
  by (simp add: database_init_def)

lemma truthy_present: "truthy (dict_get data k) \<Longrightarrow> map_of data k \<noteq> None"
  by (cases "map_of data k") (auto simp: dict_get_def)

lemma mysql_engine_value:
  assumes "config_engine data = ''mysql''"
  shows "\<exists>s. dict_get_default data ''engine'' (JStr ''mysql'') = JStr s \<and> lower s = ''mysql''"
proof -
  have "config_engine data \<in> {''mysql'', ''sqlite''}" using assms by simp
  then have "map_of data ''engine'' = None \<or> (\<exists>s. map_of data ''engine'' = Some (JStr s))"
    by (auto simp only: config_engine_recognised)
  then show ?thesis
  proof (elim disjE exE)
    assume "map_of data ''engine'' = None"
    then show ?thesis
      by (simp add: dict_get_default_def lower_def lower_char_def)
  next
    fix s assume "map_of data ''engine'' = Some (JStr s)"
    then show ?thesis using assms
      by (simp add: dict_get_default_def config_engine_def py_str_def)
  qed
qed

lemma database_init_mysql_ok:
  assumes eng: "config_engine data = ''mysql''"
    and req: "\<forall>k\<in>set required_keys. truthy (dict_get data k)"
    and av: "available st"
  shows "\<exists>ps. load_params (Parsed (JObj data)) = Inr ps \<and>
           (ps = data \<or> ps = AList.update ''port'' (JInt 3306) data) \<and>
           map_of ps ''port'' \<noteq> None \<and>
           database_init (Parsed (JObj data)) st = (Inr \<lparr>params = ps, engine = ''mysql''\<rparr>, st)"
proof -
  have nomiss: "filter (\<lambda>k. \<not> truthy (dict_get data k)) required_keys = []"
    using req by (simp add: filter_empty_conv)
  define ps where "ps = (if map_of data ''port'' = None \<or> \<not> truthy (dict_get data ''port'')
     then AList.update ''port'' (JInt 3306) data else data)"
  have lp: "load_params (Parsed (JObj data)) = Inr ps"
    using eng nomiss by (simp add: load_params_mysql ps_def)
  have shape: "ps = data \<or> ps = AList.update ''port'' (JInt 3306) data"
    by (simp add: ps_def)
  have port: "map_of ps ''port'' \<noteq> None"
    by (auto simp: ps_def update_conv)
  have keys: "map_of ps k \<noteq> None" if "k \<in> set required_keys" for k
  proof -
    have "map_of data k \<noteq> None" using req that truthy_present by blast
    moreover have "k \<noteq> ''port''" using that by (auto simp: required_keys_def)
    ultimately show ?thesis using shape by (auto simp: update_conv)
  qed
  have conn: "get_connection \<lparr>params = ps, engine = ''mysql''\<rparr> st = Inr ()"
    using keys port av by (simp add: get_connection_def required_keys_def)
  obtain s where s: "dict_get_default data ''engine'' (JStr ''mysql'') = JStr s" "lower s = ''mysql''"
    using mysql_engine_value [OF eng] by blast
  have "dict_get_default ps ''engine'' (JStr ''mysql'') = JStr s"
    using engine_key_kept [OF shape] s(1) by simp
  then have "database_init (Parsed (JObj data)) st = (Inr \<lparr>params = ps, engine = ''mysql''\<rparr>, st)"
    using lp s(2) conn by (simp add: database_init_def ensure_files_table_def)
  with lp shape port show ?thesis by blast
qed

lemma dict_get_delete:
  "dict_get (AList.delete k data) k' = (if k' = k then JNull else dict_get data k')"
  by (simp add: dict_get_def delete_conv)

lemma config_engine_delete:
  "k \<noteq> ''engine'' \<Longrightarrow> config_engine (AList.delete k data) = config_engine data"
  by (simp add: config_engine_def dict_get_default_def delete_conv)

text \<open>
  The definitions that evaluate a construction on a concrete configuration.
\<close>

lemmas config_eval =
  database_init_def load_params_def config_engine_def dict_get_default_def
  dict_get_def py_str_def lower_def lower_char_def required_keys_def ensure_files_table_def
  get_connection_def sqlite_path_def empty_store_def

subsection \<open>The engine key\<close>

text \<open>
  C5, as the claim states it, requires the configuration to contain the key \<open>engine\<close>.  The
  code does not: a configuration with the four MySQL keys and no \<open>engine\<close> key constructs a
  \<open>mysql\<close> store.
\<close>

theorem engine_key_required_counterexample:
  "database_init
     (Parsed (JObj [(''host'', JStr ''localhost''), (''user'', JStr ''root''),
                    (''password'', JStr ''pw''), (''database'', JStr ''files'')]))
     empty_store
   = (Inr \<lparr>params = [(''host'', JStr ''localhost''), (''user'', JStr ''root''),
                    (''password'', JStr ''pw''), (''database'', JStr ''files''),
                    (''port'', JInt 3306)],
            engine = ''mysql''\<rparr>,
      empty_store)
   \<and> map_of [(''host'', JStr ''localhost''), (''user'', JStr ''root''),
             (''password'', JStr ''pw''), (''database'', JStr ''files'')] ''engine'' = None"
  by (simp add: config_eval)

text \<open>
  C5, amended.  Construction fails with \<open>FileNotFoundError\<close> when the configuration file is
  missing.  The key \<open>engine\<close> is optional: without it the engine is \<open>mysql\<close>.  The engine
  is recognized exactly when the key is absent or its value is a str that lower-cases to
  \<open>mysql\<close> or \<open>sqlite\<close>; when it is not recognized, construction fails with the
  \<open>ValueError\<close> about the engine and leaves the store as it is.  Whenever construction
  succeeds, the configuration was a JSON object and the engine of the new object is the
  recognized engine of that configuration.
\<close>

theorem engine_optional_and_checked:
  "database_init NoFile st = (Inl FileNotFoundError, st) \<and>
   (map_of data ''engine'' = None \<longrightarrow> config_engine data = ''mysql'') \<and>
   (config_engine data \<in> {''mysql'', ''sqlite''} \<longleftrightarrow>
      (map_of data ''engine'' = None \<or>
       (\<exists>s. map_of data ''engine'' = Some (JStr s) \<and> lower s \<in> {''mysql'', ''sqlite''}))) \<and>
   (config_engine data \<notin> {''mysql'', ''sqlite''} \<longrightarrow>
      database_init (Parsed (JObj data)) st = (Inl (ValueError BadEngine), st)) \<and>
   (fst (database_init cf st) = Inr db \<longrightarrow>
      (\<exists>d. cf = Parsed (JObj d) \<and> engine db = config_engine d \<and>
           engine db \<in> {''mysql'', ''sqlite''}))"
proof (intro conjI impI)
  show "database_init NoFile st = (Inl FileNotFoundError, st)"
    by (simp add: database_init_def load_params_def)
  show "config_engine data = ''mysql''" if "map_of data ''engine'' = None"
    using that by (simp add: config_engine_def dict_get_default_def py_str_def lower_def lower_char_def)
  show "config_engine data \<in> {''mysql'', ''sqlite''} \<longleftrightarrow>
      (map_of data ''engine'' = None \<or>
       (\<exists>s. map_of data ''engine'' = Some (JStr s) \<and> lower s \<in> {''mysql'', ''sqlite''}))"
    by (rule config_engine_recognised)
  show "database_init (Parsed (JObj data)) st = (Inl (ValueError BadEngine), st)"
    if "config_engine data \<notin> {''mysql'', ''sqlite''}"
    using that by (simp add: database_init_def load_params_def)
  show "\<exists>d. cf = Parsed (JObj d) \<and> engine db = config_engine d \<and>
           engine db \<in> {''mysql'', ''sqlite''}"
    if "fst (database_init cf st) = Inr db"
    using that by (rule database_init_Inr)
qed

text \<open>
  At concrete inputs: no \<open>engine\<close> key; the unknown engine \<open>postgres\<close>; and \<open>SQLite\<close>, which is
  accepted in any letter case.
\<close>

theorem engine_optional_and_checked_witness:
  "map_of [(''host'', JStr ''localhost'')] ''engine'' = None \<and>
   config_engine [(''host'', JStr ''localhost'')] = ''mysql'' \<and>
   config_engine [(''engine'', JStr ''postgres'')] \<notin> {''mysql'', ''sqlite''} \<and>
   database_init (Parsed (JObj [(''engine'', JStr ''postgres'')])) empty_store
     = (Inl (ValueError BadEngine), empty_store) \<and>
   fst (database_init (Parsed (JObj [(''engine'', JStr ''SQLite''), (''database'', JStr ''files.db'')]))
          empty_store)
     = Inr \<lparr>params = [(''engine'', JStr ''SQLite''), (''database'', JStr ''files.db'')],
            engine = ''sqlite''\<rparr> \<and>
   (\<exists>d. Parsed (JObj [(''engine'', JStr ''SQLite''), (''database'', JStr ''files.db'')])
          = Parsed (JObj d) \<and>
        engine \<lparr>params = [(''engine'', JStr ''SQLite''), (''database'', JStr ''files.db'')],
                engine = ''sqlite''\<rparr> = config_engine d)"
  using engine_optional_and_checked [of empty_store "[(''host'', JStr ''localhost'')]"
      "Parsed (JObj [(''engine'', JStr ''SQLite''), (''database'', JStr ''files.db'')])"
      "\<lparr>params = [(''engine'', JStr ''SQLite''), (''database'', JStr ''files.db'')],
        engine = ''sqlite''\<rparr>"]
    engine_optional_and_checked [of empty_store "[(''engine'', JStr ''postgres'')]"
      "Parsed (JObj [(''engine'', JStr ''SQLite''), (''database'', JStr ''files.db'')])"
      "\<lparr>params = [(''engine'', JStr ''SQLite''), (''database'', JStr ''files.db'')],
        engine = ''sqlite''\<rparr>"]
  by (simp add: config_eval)

subsection \<open>The keys of the client-server engine\<close>

text \<open>
  C6, as the claim states it, promises the default port whenever the four required keys are
  present and \<open>port\<close> is absent.  With \<open>host\<close> present but empty, all four keys are present
  and \<open>port\<close> is absent, and construction fails instead.
\<close>

theorem port_default_counterexample:
  "config_engine [(''engine'', JStr ''mysql''), (''host'', JStr ''''), (''user'', JStr ''root''),
                  (''password'', JStr ''pw''), (''database'', JStr ''files'')] = ''mysql'' \<and>
   map_of [(''engine'', JStr ''mysql''), (''host'', JStr ''''), (''user'', JStr ''root''),
           (''password'', JStr ''pw''), (''database'', JStr ''files'')] ''host'' = Some (JStr '''') \<and>
   map_of [(''engine'', JStr ''mysql''), (''host'', JStr ''''), (''user'', JStr ''root''),
           (''password'', JStr ''pw''), (''database'', JStr ''files'')] ''user'' = Some (JStr ''root'') \<and>
   map_of [(''engine'', JStr ''mysql''), (''host'', JStr ''''), (''user'', JStr ''root''),
           (''password'', JStr ''pw''), (''database'', JStr ''files'')] ''password'' = Some (JStr ''pw'') \<and>
   map_of [(''engine'', JStr ''mysql''), (''host'', JStr ''''), (''user'', JStr ''root''),
           (''password'', JStr ''pw''), (''database'', JStr ''files'')] ''database'' = Some (JStr ''files'') \<and>
   map_of [(''engine'', JStr ''mysql''), (''host'', JStr ''''), (''user'', JStr ''root''),
           (''password'', JStr ''pw''), (''database'', JStr ''files'')] ''port'' = None \<and>
   database_init
     (Parsed (JObj [(''engine'', JStr ''mysql''), (''host'', JStr ''''), (''user'', JStr ''root''),
                    (''password'', JStr ''pw''), (''database'', JStr ''files'')]))
     empty_store
   = (Inl (ValueError (MissingMySQLFields [''host''])), empty_store)"
  by (simp add: config_eval)

text \<open>
  C6, amended.  For the \<open>mysql\<close> engine: if a required key is absent, construction fails
  with the \<open>ValueError\<close> that lists the missing keys, the absent key among them, in every
  state of the store (so also when the engine cannot be reached: the error is not a
  connection error), and the store is left as it is.  If all four required keys have truthy
  values and \<open>port\<close> is absent, \<open>_load_params\<close> returns the configuration with \<open>port\<close> set
  to 3306, and construction succeeds with these parameters when the engine can be reached.
\<close>

theorem mysql_required_keys:
  assumes "config_engine data = ''mysql''"
  shows "(k \<in> set required_keys \<and> map_of data k = None \<longrightarrow>
            k \<in> set (filter (\<lambda>k. \<not> truthy (dict_get data k)) required_keys) \<and>
            database_init (Parsed (JObj data)) st =
              (Inl (ValueError (MissingMySQLFields
                      (filter (\<lambda>k. \<not> truthy (dict_get data k)) required_keys))), st))
       \<and> ((\<forall>k\<in>set required_keys. truthy (dict_get data k)) \<and> map_of data ''port'' = None \<longrightarrow>
            load_params (Parsed (JObj data)) = Inr (AList.update ''port'' (JInt 3306) data) \<and>
            map_of (AList.update ''port'' (JInt 3306) data) ''port'' = Some (JInt 3306) \<and>
            (available st \<longrightarrow>
               database_init (Parsed (JObj data)) st =
                 (Inr \<lparr>params = AList.update ''port'' (JInt 3306) data, engine = ''mysql''\<rparr>, st)))"
proof (intro conjI impI)
  assume a: "k \<in> set required_keys \<and> map_of data k = None"
  then have f: "\<not> truthy (dict_get data k)" by (simp add: dict_get_def)
  with a show in_list: "k \<in> set (filter (\<lambda>k. \<not> truthy (dict_get data k)) required_keys)"
    by simp
  have "filter (\<lambda>k. \<not> truthy (dict_get data k)) required_keys \<noteq> []"
    using a f by (auto simp: filter_empty_conv)
  then have "load_params (Parsed (JObj data)) =
      Inl (ValueError (MissingMySQLFields (filter (\<lambda>k. \<not> truthy (dict_get data k)) required_keys)))"
    using assms by (simp add: load_params_mysql)
  then show "database_init (Parsed (JObj data)) st =
      (Inl (ValueError (MissingMySQLFields
              (filter (\<lambda>k. \<not> truthy (dict_get data k)) required_keys))), st)"
    by (rule database_init_load_fails)
next
  assume b: "(\<forall>k\<in>set required_keys. truthy (dict_get data k)) \<and> map_of data ''port'' = None"
  then have "filter (\<lambda>k. \<not> truthy (dict_get data k)) required_keys = []"
    by (simp add: filter_empty_conv)
  then show lp: "load_params (Parsed (JObj data)) = Inr (AList.update ''port'' (JInt 3306) data)"
    using assms b by (simp add: load_params_mysql)
  show "map_of (AList.update ''port'' (JInt 3306) data) ''port'' = Some (JInt 3306)"
    by (simp add: update_conv)
  assume "available st"
  then show "database_init (Parsed (JObj data)) st =
      (Inr \<lparr>params = AList.update ''port'' (JInt 3306) data, engine = ''mysql''\<rparr>, st)"
    using database_init_mysql_ok [OF assms, of st] b lp by auto
qed

text \<open>
  At concrete inputs: \<open>password\<close> (and \<open>database\<close>) absent, with an engine that is not
  available; and the four keys given, \<open>port\<close> absent.
\<close>

theorem mysql_required_keys_witness:
  "config_engine [(''engine'', JStr ''mysql''), (''host'', JStr ''db.local''), (''user'', JStr ''root'')]
     = ''mysql'' \<and>
   ''password'' \<in> set required_keys \<and>
   map_of [(''engine'', JStr ''mysql''), (''host'', JStr ''db.local''), (''user'', JStr ''root'')]
     ''password'' = None \<and>
   database_init
     (Parsed (JObj [(''engine'', JStr ''mysql''), (''host'', JStr ''db.local''), (''user'', JStr ''root'')]))
     \<lparr>available = False, rows = [], seq = 0, vacuum_runs = 0, compactable = True\<rparr>
   = (Inl (ValueError (MissingMySQLFields [''password'', ''database''])),
      \<lparr>available = False, rows = [], seq = 0, vacuum_runs = 0, compactable = True\<rparr>) \<and>
   config_engine [(''host'', JStr ''db.local''), (''user'', JStr ''root''),
                  (''password'', JStr ''pw''), (''database'', JStr ''files'')] = ''mysql'' \<and>
   truthy (dict_get [(''host'', JStr ''db.local''), (''user'', JStr ''root''),
                      (''password'', JStr ''pw''), (''database'', JStr ''files'')] ''host'') \<and>
   truthy (dict_get [(''host'', JStr ''db.local''), (''user'', JStr ''root''),
                      (''password'', JStr ''pw''), (''database'', JStr ''files'')] ''user'') \<and>
   truthy (dict_get [(''host'', JStr ''db.local''), (''user'', JStr ''root''),
                      (''password'', JStr ''pw''), (''database'', JStr ''files'')] ''password'') \<and>
   truthy (dict_get [(''host'', JStr ''db.local''), (''user'', JStr ''root''),
                      (''password'', JStr ''pw''), (''database'', JStr ''files'')] ''database'') \<and>
   map_of [(''host'', JStr ''db.local''), (''user'', JStr ''root''),
           (''password'', JStr ''pw''), (''database'', JStr ''files'')] ''port'' = None \<and>
   available empty_store \<and>
   database_init
     (Parsed (JObj [(''host'', JStr ''db.local''), (''user'', JStr ''root''),
                    (''password'', JStr ''pw''), (''database'', JStr ''files'')]))
     empty_store
   = (Inr \<lparr>params = [(''host'', JStr ''db.local''), (''user'', JStr ''root''),
                    (''password'', JStr ''pw''), (''database'', JStr ''files''),
                    (''port'', JInt 3306)],
            engine = ''mysql''\<rparr>, empty_store)"
  using mysql_required_keys [of
      "[(''engine'', JStr ''mysql''), (''host'', JStr ''db.local''), (''user'', JStr ''root'')]"
      "''password''" "\<lparr>available = False, rows = [], seq = 0, vacuum_runs = 0, compactable = True\<rparr>"]
    mysql_required_keys [of
      "[(''host'', JStr ''db.local''), (''user'', JStr ''root''),
        (''password'', JStr ''pw''), (''database'', JStr ''files'')]"
      "''password''" empty_store]
  by (simp add: config_eval)

text \<open>
  C10.  For the \<open>mysql\<close> engine: a required key that is present with a falsy value is
  listed in the \<open>ValueError\<close> of the missing keys, construction fails with that error, and
  the outcome is the one of the configuration without the key.  If all four required keys
  have truthy values and \<open>port\<close> is present with a falsy value, \<open>_load_params\<close> replaces it
  by 3306, and construction succeeds with these parameters when the engine can be reached.
\<close>

theorem falsy_values_count_as_missing:
  assumes "config_engine data = ''mysql''"
  shows "(k \<in> set required_keys \<and> map_of data k = Some v \<and> \<not> truthy v \<longrightarrow>
            k \<in> set (filter (\<lambda>k. \<not> truthy (dict_get data k)) required_keys) \<and>
            database_init (Parsed (JObj data)) st =
              (Inl (ValueError (MissingMySQLFields
                      (filter (\<lambda>k. \<not> truthy (dict_get data k)) required_keys))), st) \<and>
            database_init (Parsed (JObj (AList.delete k data))) st =
              database_init (Parsed (JObj data)) st)
       \<and> ((\<forall>k\<in>set required_keys. truthy (dict_get data k)) \<and>
            map_of data ''port'' = Some v \<and> \<not> truthy v \<longrightarrow>
            load_params (Parsed (JObj data)) = Inr (AList.update ''port'' (JInt 3306) data) \<and>
            map_of (AList.update ''port'' (JInt 3306) data) ''port'' = Some (JInt 3306) \<and>
            (available st \<longrightarrow>
               database_init (Parsed (JObj data)) st =
                 (Inr \<lparr>params = AList.update ''port'' (JInt 3306) data, engine = ''mysql''\<rparr>, st)))"
proof (intro conjI impI)
  let ?miss = "\<lambda>d. filter (\<lambda>k. \<not> truthy (dict_get d k)) required_keys"
  assume a: "k \<in> set required_keys \<and> map_of data k = Some v \<and> \<not> truthy v"
  then have f: "\<not> truthy (dict_get data k)" by (simp add: dict_get_def)
  with a show "k \<in> set (?miss data)" by simp
  have ne: "?miss data \<noteq> []" using a f by (auto simp: filter_empty_conv)
  then have lp: "load_params (Parsed (JObj data)) = Inl (ValueError (MissingMySQLFields (?miss data)))"
    using assms by (simp add: load_params_mysql)
  then show di: "database_init (Parsed (JObj data)) st =
      (Inl (ValueError (MissingMySQLFields (?miss data))), st)"
    by (rule database_init_load_fails)
  have "k \<noteq> ''engine''" using a by (auto simp: required_keys_def)
  then have eng': "config_engine (AList.delete k data) = ''mysql''"
    using assms by (simp add: config_engine_delete)
  have "truthy (dict_get (AList.delete k data) k') = truthy (dict_get data k')" for k'
    using f by (simp add: dict_get_delete)
  then have same: "?miss (AList.delete k data) = ?miss data" by simp
  have "load_params (Parsed (JObj (AList.delete k data))) =
      Inl (ValueError (MissingMySQLFields (?miss data)))"
    using eng' ne same by (simp add: load_params_mysql)
  then have "database_init (Parsed (JObj (AList.delete k data))) st =
      (Inl (ValueError (MissingMySQLFields (?miss data))), st)"
    by (rule database_init_load_fails)
  with di show "database_init (Parsed (JObj (AList.delete k data))) st =
      database_init (Parsed (JObj data)) st" by simp
next
  assume b: "(\<forall>k\<in>set required_keys. truthy (dict_get data k)) \<and>
      map_of data ''port'' = Some v \<and> \<not> truthy v"
  then have "filter (\<lambda>k. \<not> truthy (dict_get data k)) required_keys = []"
    by (simp add: filter_empty_conv)
  moreover have "\<not> truthy (dict_get data ''port'')" using b by (simp add: dict_get_def)
  ultimately show lp: "load_params (Parsed (JObj data)) = Inr (AList.update ''port'' (JInt 3306) data)"
    using assms by (simp add: load_params_mysql)
  show "map_of (AList.update ''port'' (JInt 3306) data) ''port'' = Some (JInt 3306)"
    by (simp add: update_conv)
  assume "available st"
  then show "database_init (Parsed (JObj data)) st =
      (Inr \<lparr>params = AList.update ''port'' (JInt 3306) data, engine = ''mysql''\<rparr>, st)"
    using database_init_mysql_ok [OF assms, of st] b lp by auto
qed

text \<open>
  At concrete inputs: an empty \<open>password\<close>; and \<open>port\<close> 0.
\<close>

theorem falsy_values_count_as_missing_witness:
  "config_engine [(''host'', JStr ''db.local''), (''user'', JStr ''root''),
                  (''password'', JStr ''''), (''database'', JStr ''files'')] = ''mysql'' \<and>
   ''password'' \<in> set required_keys \<and>
   map_of [(''host'', JStr ''db.local''), (''user'', JStr ''root''),
           (''password'', JStr ''''), (''database'', JStr ''files'')] ''password'' = Some (JStr '''') \<and>
   \<not> truthy (JStr '''') \<and>
   database_init
     (Parsed (JObj [(''host'', JStr ''db.local''), (''user'', JStr ''root''),
                    (''password'', JStr ''''), (''database'', JStr ''files'')]))
     empty_store
   = (Inl (ValueError (MissingMySQLFields [''password''])), empty_store) \<and>
   database_init
     (Parsed (JObj [(''host'', JStr ''db.local''), (''user'', JStr ''root''),
                    (''database'', JStr ''files'')]))
     empty_store
   = (Inl (ValueError (MissingMySQLFields [''password''])), empty_store) \<and>
   config_engine [(''host'', JStr ''db.local''), (''user'', JStr ''root''), (''password'', JStr ''pw''),
                  (''database'', JStr ''files''), (''port'', JInt 0)] = ''mysql'' \<and>
   truthy (dict_get [(''host'', JStr ''db.local''), (''user'', JStr ''root''), (''password'', JStr ''pw''),
                      (''database'', JStr ''files''), (''port'', JInt 0)] ''host'') \<and>
   truthy (dict_get [(''host'', JStr ''db.local''), (''user'', JStr ''root''), (''password'', JStr ''pw''),
                      (''database'', JStr ''files''), (''port'', JInt 0)] ''user'') \<and>
   truthy (dict_get [(''host'', JStr ''db.local''), (''user'', JStr ''root''), (''password'', JStr ''pw''),
                      (''database'', JStr ''files''), (''port'', JInt 0)] ''password'') \<and>
   truthy (dict_get [(''host'', JStr ''db.local''), (''user'', JStr ''root''), (''password'', JStr ''pw''),
                      (''database'', JStr ''files''), (''port'', JInt 0)] ''database'') \<and>
   map_of [(''host'', JStr ''db.local''), (''user'', JStr ''root''), (''password'', JStr ''pw''),
           (''database'', JStr ''files''), (''port'', JInt 0)] ''port'' = Some (JInt 0) \<and>
   \<not> truthy (JInt 0) \<and>
   load_params
     (Parsed (JObj [(''host'', JStr ''db.local''), (''user'', JStr ''root''), (''password'', JStr ''pw''),
                    (''database'', JStr ''files''), (''port'', JInt 0)]))
   = Inr [(''host'', JStr ''db.local''), (''user'', JStr ''root''), (''password'', JStr ''pw''),
          (''database'', JStr ''files''), (''port'', JInt 3306)]"
  using falsy_values_count_as_missing [of
      "[(''host'', JStr ''db.local''), (''user'', JStr ''root''),
        (''password'', JStr ''''), (''database'', JStr ''files'')]"
      "''password''" "JStr ''''" empty_store]
    falsy_values_count_as_missing [of
      "[(''host'', JStr ''db.local''), (''user'', JStr ''root''), (''password'', JStr ''pw''),
        (''database'', JStr ''files''), (''port'', JInt 0)]"
      "''password''" "JInt 0" empty_store]
  by (simp add: config_eval)

section \<open>The table of files\<close>

subsection \<open>Connections and parameters\<close>

lemma get_connection_available:
  "available st' = available st \<Longrightarrow> get_connection db st' = get_connection db st"
  by (simp add: get_connection_def)

lemma bind_int_Inr: "bind_int db x = Inr () \<longleftrightarrow> engine db \<noteq> ''sqlite'' \<or> int64 x"
  by (auto simp: bind_int_def)

lemma bind_int_Inl:
  "bind_int db x = Inl e \<longleftrightarrow> engine db = ''sqlite'' \<and> \<not> int64 x \<and> e = OverflowError"
  by (auto simp: bind_int_def)

subsection \<open>Deletion and compaction\<close>

lemma filter_other_id:
  "(\<forall>r\<in>set rs. row_id r \<noteq> x) \<Longrightarrow> filter (\<lambda>r. row_id r \<noteq> x) rs = rs"
  by (induction rs) auto

lemma sql_delete_bound:
  "bind_int db x = Inr () \<Longrightarrow>
     sql_delete db x st =
       Inr (length (filter (\<lambda>r. row_id r = x) (rows st)),
            st\<lparr>rows := filter (\<lambda>r. row_id r \<noteq> x) (rows st)\<rparr>)"
  by (simp add: sql_delete_def)

lemma sql_delete_unbound: "bind_int db x = Inl e \<Longrightarrow> sql_delete db x st = Inl e"
  by (simp add: sql_delete_def)

text \<open>The \<open>DELETE\<close> finds no row: it runs, and no row has the id.\<close>

lemma sql_delete_none:
  "sql_delete db x st = Inr (0, st1) \<longleftrightarrow>
     bind_int db x = Inr () \<and> (\<forall>r\<in>set (rows st). row_id r \<noteq> x) \<and> st1 = st"
proof (cases "bind_int db x")
  case (Inl e)
  then show ?thesis by (simp add: sql_delete_unbound)
next
  case (Inr u)
  then have b: "bind_int db x = Inr ()" by simp
  show ?thesis
  proof (cases "\<forall>r\<in>set (rows st). row_id r \<noteq> x")
    case True
    then show ?thesis using b
      by (auto simp: sql_delete_bound filter_other_id filter_empty_conv)
  next
    case False
    then show ?thesis using b by (auto simp: sql_delete_bound filter_empty_conv)
  qed
qed

lemma vacuum_rows: "rows (snd (vacuum db st)) = rows st"
  by (simp add: vacuum_def sql_vacuum_def split: sum.splits)

lemma vacuum_available: "available (snd (vacuum db st)) = available st"
  by (simp add: vacuum_def sql_vacuum_def split: sum.splits)

lemma vacuum_sqlite:
  "engine db = ''sqlite'' \<Longrightarrow> get_connection db st = Inr () \<Longrightarrow> compactable st \<Longrightarrow>
     vacuum db st = (Inr (), st\<lparr>vacuum_runs := vacuum_runs st + 1\<rparr>)"
  by (simp add: vacuum_def sql_vacuum_def)

lemma vacuum_sqlite_fails:
  "engine db = ''sqlite'' \<Longrightarrow> get_connection db st = Inr () \<Longrightarrow> \<not> compactable st \<Longrightarrow>
     vacuum db st = (Inl DatabaseError, st)"
  by (simp add: vacuum_def sql_vacuum_def)

lemma vacuum_other: "engine db \<noteq> ''sqlite'' \<Longrightarrow> vacuum db st = (Inr (), st)"
  by (simp add: vacuum_def)

lemma delete_file_disconnected:
  "get_connection db st = Inl e \<Longrightarrow> delete_file db st x v = (Inl e, st)"
  by (simp add: delete_file_def)

lemma delete_file_unbound:
  "get_connection db st = Inr () \<Longrightarrow> bind_int db x = Inl e \<Longrightarrow>
     delete_file db st x v = (Inl e, st)"
  by (simp add: delete_file_def sql_delete_unbound)

text \<open>
  \<open>delete_file\<close> when the connection opens and the driver binds the id, case by case: no row
  of that id; a row and no compaction asked for (or another engine); a row and a compaction
  that runs; a row and a compaction that fails.
\<close>

lemma delete_file_bound:
  assumes "get_connection db st = Inr ()" and "bind_int db x = Inr ()"
  shows "delete_file db st x v =
     (if \<forall>r\<in>set (rows st). row_id r \<noteq> x then (Inr False, st)
      else if v \<and> engine db = ''sqlite'' then
        (if compactable st
         then (Inr True, st\<lparr>rows := filter (\<lambda>r. row_id r \<noteq> x) (rows st),
                            vacuum_runs := vacuum_runs st + 1\<rparr>)
         else (Inl DatabaseError, st\<lparr>rows := filter (\<lambda>r. row_id r \<noteq> x) (rows st)\<rparr>))
      else (Inr True, st\<lparr>rows := filter (\<lambda>r. row_id r \<noteq> x) (rows st)\<rparr>))"
proof -
  let ?st1 = "st\<lparr>rows := filter (\<lambda>r. row_id r \<noteq> x) (rows st)\<rparr>"
  have d: "sql_delete db x st = Inr (length (filter (\<lambda>r. row_id r = x) (rows st)), ?st1)"
    using assms(2) by (rule sql_delete_bound)
  have c1: "get_connection db ?st1 = Inr ()"
    using assms(1) get_connection_available [of ?st1 st db] by simp
  show ?thesis
  proof (cases "\<forall>r\<in>set (rows st). row_id r \<noteq> x")
    case True
    then have "?st1 = st" by (simp add: filter_other_id)
    then show ?thesis using True assms(1) d
      by (simp add: delete_file_def filter_empty_conv)
  next
    case False
    then have n: "length (filter (\<lambda>r. row_id r = x) (rows st)) \<noteq> 0"
      by (auto simp: filter_empty_conv)
    show ?thesis
    proof (cases "v \<and> engine db = ''sqlite''")
      case nv: False
      then show ?thesis using False assms(1) d n by (auto simp: delete_file_def)
    next
      case True
      show ?thesis
      proof (cases "compactable st")
        case c: True
        then have "vacuum db ?st1 = (Inr (), ?st1\<lparr>vacuum_runs := vacuum_runs ?st1 + 1\<rparr>)"
          using True c1 by (simp add: vacuum_sqlite)
        then show ?thesis using False True c assms(1) d n by (simp add: delete_file_def)
      next
        case c: False
        then have "vacuum db ?st1 = (Inl DatabaseError, ?st1)"
          using True c1 by (simp add: vacuum_sqlite_fails)
        then show ?thesis using False True c assms(1) d n by (simp add: delete_file_def)
      qed
    qed
  qed
qed

text \<open>Whatever happens, \<open>delete_file\<close> leaves the table as it was or without the rows of the id.\<close>

lemma delete_file_frame:
  "(rows (snd (delete_file db st x v)) = rows st \<or>
    rows (snd (delete_file db st x v)) = filter (\<lambda>r. row_id r \<noteq> x) (rows st)) \<and>
   available (snd (delete_file db st x v)) = available st"
proof (cases "get_connection db st")
  case (Inl e)
  then show ?thesis by (simp add: delete_file_disconnected)
next
  case (Inr u)
  then have c: "get_connection db st = Inr ()" by simp
  show ?thesis
  proof (cases "bind_int db x")
    case (Inl e)
    then show ?thesis using c by (simp add: delete_file_unbound)
  next
    case (Inr w)
    then have "bind_int db x = Inr ()" by simp
    then show ?thesis using c by (simp add: delete_file_bound)
  qed
qed

lemma delete_file_True:
  assumes "delete_file db st x v = (Inr True, st')"
  shows "get_connection db st = Inr ()" "bind_int db x = Inr ()"
    "rows st' = filter (\<lambda>r. row_id r \<noteq> x) (rows st)" "available st' = available st"
proof -
  show c: "get_connection db st = Inr ()"
    using assms by (cases "get_connection db st") (auto simp: delete_file_disconnected)
  show b: "bind_int db x = Inr ()"
    using assms c by (cases "bind_int db x") (auto simp: delete_file_unbound)
  show "rows st' = filter (\<lambda>r. row_id r \<noteq> x) (rows st)" "available st' = available st"
    using assms delete_file_bound [OF c b, of v] by (auto split: if_splits)
qed

lemma query_by_id_absent:
  "get_connection db st = Inr () \<Longrightarrow> bind_int db x = Inr () \<Longrightarrow>
     (\<forall>r\<in>set (rows st). row_id r \<noteq> x) \<Longrightarrow> get_file_by_id db st x = Inr None"
  by (simp add: get_file_by_id_def query_def sql_select_def run_select_def first_or_none_def
      filter_empty_conv)

lemma vacuum_disconnected:
  "engine db = ''sqlite'' \<Longrightarrow> get_connection db st = Inl e \<Longrightarrow> vacuum db st = (Inl e, st)"
  by (simp add: vacuum_def)

lemma get_file_by_id_unbound:
  "get_connection db st = Inr () \<Longrightarrow> engine db = ''sqlite'' \<Longrightarrow> \<not> int64 x \<Longrightarrow>
     get_file_by_id db st x = Inl OverflowError"
  by (simp add: get_file_by_id_def query_def sql_select_def bind_int_def)

subsection \<open>Insertion\<close>

lemma fold_max_ge: "a \<le> fold max xs (a::int)" "x \<in> set xs \<Longrightarrow> x \<le> fold max xs a"
proof -
  have "fold max xs a = Max (set (a # xs))" by (rule Max.set_eq_fold [symmetric])
  then show "a \<le> fold max xs a" "x \<in> set xs \<Longrightarrow> x \<le> fold max xs a" by auto
qed

lemma high_water_ge: "r \<in> set (rows st) \<Longrightarrow> row_id r \<le> high_water st"
  by (simp add: high_water_def fold_max_ge(2))

text \<open>\<open>insert_file\<close> either raises and leaves the store as it was, or appends the new row.\<close>

lemma insert_file_cases:
  "(\<exists>e. insert_file db st fname mtype fsize fdata sha = (Inl e, st)) \<or>
   insert_file db st fname mtype fsize fdata sha =
     (Inr (high_water st + 1),
      st\<lparr>rows := rows st @ [\<lparr>row_id = high_water st + 1, filename = fname, mime_type = mtype,
                              file_size = fsize, file_data = fdata, sha256 = sha\<rparr>],
         seq := high_water st + 1\<rparr>)"
  by (simp add: insert_file_def sql_insert_def Let_def split: sum.splits)

lemma insert_file_unbound:
  "get_connection db st = Inr () \<Longrightarrow> engine db = ''sqlite'' \<Longrightarrow> \<not> int64 fsize \<Longrightarrow>
     insert_file db st fname mtype fsize fdata sha = (Inl OverflowError, st)"
  by (simp add: insert_file_def sql_insert_def bind_int_def)

lemma insert_file_full:
  "get_connection db st = Inr () \<Longrightarrow> engine db = ''sqlite'' \<Longrightarrow> int64 fsize \<Longrightarrow>
     \<not> int64 (high_water st + 1) \<Longrightarrow>
     insert_file db st fname mtype fsize fdata sha = (Inl DatabaseError, st)"
  by (simp add: insert_file_def sql_insert_def bind_int_def Let_def)

lemma insert_file_Inr:
  assumes "insert_file db st fname mtype fsize fdata sha = (Inr i, st1)"
  shows "get_connection db st = Inr ()" "i = high_water st + 1"
    "st1 = st\<lparr>rows := rows st @ [\<lparr>row_id = i, filename = fname, mime_type = mtype,
                                file_size = fsize, file_data = fdata, sha256 = sha\<rparr>],
              seq := i\<rparr>"
    "bind_int db i = Inr ()"
proof -
  show "get_connection db st = Inr ()"
    using assms by (cases "get_connection db st") (auto simp: insert_file_def)
  show i: "i = high_water st + 1"
    using assms insert_file_cases [of db st fname mtype fsize fdata sha] by auto
  show "st1 = st\<lparr>rows := rows st @ [\<lparr>row_id = i, filename = fname, mime_type = mtype,
                                file_size = fsize, file_data = fdata, sha256 = sha\<rparr>],
              seq := i\<rparr>"
    using assms insert_file_cases [of db st fname mtype fsize fdata sha] by auto
  show "bind_int db i = Inr ()"
    using assms i
    by (auto simp: insert_file_def sql_insert_def Let_def bind_int_def
        split: sum.splits if_splits)
qed

lemma insert_file_keeps_connection:
  assumes "insert_file db st fname mtype fsize fdata sha = (Inr i, st1)"
  shows "get_connection db st = Inr ()" "get_connection db st1 = Inr ()"
proof -
  note ins = insert_file_Inr [OF assms]
  show "get_connection db st = Inr ()" by (rule ins(1))
  have "available st1 = available st" using ins(3) by simp
  then show "get_connection db st1 = Inr ()"
    using ins(1) get_connection_available [of st1 st db] by simp
qed

lemma filter_fresh_id:
  "\<forall>r\<in>set rs. row_id r < i \<Longrightarrow> filter (\<lambda>r. row_id r = i) rs = []"
  by (auto simp: filter_empty_conv)

text \<open>
  What a write leaves of the rows with a given id.
\<close>

lemma exec_keeps_row:
  assumes "filter (\<lambda>r. row_id r = i) (rows st) = [r0]"
    and "\<forall>v. c \<noteq> CDelete i v"
  shows "filter (\<lambda>r. row_id r = i) (rows (exec db c st)) = [r0]"
proof (cases c)
  case (CInsert fname mtype fsize fdata sha)
  have "r0 \<in> set (filter (\<lambda>r. row_id r = i) (rows st))" using assms by simp
  then have "r0 \<in> set (rows st)" "row_id r0 = i" by auto
  then have "i \<le> high_water st" using high_water_ge by blast
  then show ?thesis
    using assms CInsert insert_file_cases [of db st fname mtype fsize fdata sha] by auto
next
  case (CDelete j v)
  then have ji: "j \<noteq> i" using assms by auto
  have "filter (\<lambda>r. row_id r = i) (filter (\<lambda>r. row_id r \<noteq> j) (rows st)) =
      filter (\<lambda>r. row_id r = i) (rows st)"
    using ji by (auto intro: filter_cong)
  then show ?thesis using assms CDelete delete_file_frame [of db st j v] by auto
next
  case CVacuum
  then show ?thesis using assms by (simp add: vacuum_rows)
qed

lemma exec_available: "available (exec db c st) = available st"
proof (cases c)
  case (CInsert fname mtype fsize fdata sha)
  then show ?thesis
    using insert_file_cases [of db st fname mtype fsize fdata sha] by auto
next
  case (CDelete j v)
  then show ?thesis using delete_file_frame [of db st j v] by simp
next
  case CVacuum
  then show ?thesis by (simp add: vacuum_available)
qed

lemma run_keeps_row:
  "filter (\<lambda>r. row_id r = i) (rows st) = [r0] \<Longrightarrow> \<forall>v. CDelete i v \<notin> set cmds \<Longrightarrow>
     filter (\<lambda>r. row_id r = i) (rows (run db cmds st)) = [r0] \<and>
     available (run db cmds st) = available st"
proof (induction cmds arbitrary: st)
  case Nil
  then show ?case by (simp add: run_def)
next
  case (Cons c cmds)
  have "filter (\<lambda>r. row_id r = i) (rows (exec db c st)) = [r0]"
    using Cons.prems by (intro exec_keeps_row) auto
  moreover have "\<forall>v. CDelete i v \<notin> set cmds" using Cons.prems by auto
  ultimately have "filter (\<lambda>r. row_id r = i) (rows (run db cmds (exec db c st))) = [r0] \<and>
      available (run db cmds (exec db c st)) = available (exec db c st)"
    by (rule Cons.IH)
  then show ?case by (simp add: run_def exec_available)
qed

subsection \<open>Ordering by id, newest first\<close>

lemma insort_desc_front:
  "\<forall>x\<in>set xs. f y < f x \<Longrightarrow>
     foldr (insort_key f) xs (y # ys) = y # foldr (insort_key f) xs ys"
  for f :: "'a \<Rightarrow> int"
  by (induction xs) auto

lemma sort_key_snoc_least:
  "\<forall>x\<in>set xs. f y < f x \<Longrightarrow> sort_key f (xs @ [y]) = y # sort_key f xs"
  for f :: "'a \<Rightarrow> int"
  by (simp add: sort_key_def insort_desc_front)

lemma sort_desc_snoc:
  "\<forall>r\<in>set rs. row_id r < row_id y \<Longrightarrow>
     sort_key (\<lambda>r. - row_id r) (rs @ [y]) = y # sort_key (\<lambda>r. - row_id r) rs"
  by (rule sort_key_snoc_least) simp

lemma sort_desc_sorted:
  assumes "distinct (map row_id rs)"
  shows "sorted_wrt (\<lambda>a b. row_id b < row_id a) (sort_key (\<lambda>r. - row_id r) rs)"
proof -
  let ?f = "\<lambda>r. - row_id r"
  let ?s = "sort_key ?f rs"
  have "distinct rs" "inj_on row_id (set rs)"
    using assms by (simp_all add: distinct_map)
  then have "inj_on ?f (set rs)" by (auto simp: inj_on_def)
  then have "distinct (map ?f ?s)"
    using \<open>distinct rs\<close> by (simp add: distinct_map)
  moreover have "sorted (map ?f ?s)" by simp
  ultimately have "sorted_wrt (<) (map ?f ?s)" by (simp add: strict_sorted_iff)
  then show ?thesis by (simp add: sorted_wrt_map)
qed

lemma sorted_hd_least:
  "sorted (map f (x # xs)) \<Longrightarrow> y \<in> set (x # xs) \<Longrightarrow> f x \<le> f y"
  for f :: "'a \<Rightarrow> int"
  by auto

lemma sorted_rows_after_insert:
  assumes "insert_file db st fname mtype fsize fdata sha = (Inr i, st1)"
  shows "sort_key (\<lambda>r. - row_id r) (rows st1) =
           \<lparr>row_id = i, filename = fname, mime_type = mtype, file_size = fsize,
             file_data = fdata, sha256 = sha\<rparr> # sort_key (\<lambda>r. - row_id r) (rows st)"
proof -
  note ins = insert_file_Inr [OF assms]
  let ?r = "\<lparr>row_id = i, filename = fname, mime_type = mtype, file_size = fsize,
             file_data = fdata, sha256 = sha\<rparr>"
  have "\<forall>r\<in>set (rows st). row_id r < row_id ?r"
    using ins(2) high_water_ge [of _ st] by fastforce
  then have "sort_key (\<lambda>r. - row_id r) (rows st @ [?r]) = ?r # sort_key (\<lambda>r. - row_id r) (rows st)"
    by (rule sort_desc_snoc)
  then show ?thesis using ins(3) by simp
qed

lemma listing_after_insert:
  assumes "insert_file db st fname mtype fsize fdata sha = (Inr i, st1)"
  shows "\<exists>old. get_all_files db st = Inr old \<and>
           (rows st = [] \<longrightarrow> old = []) \<and>
           get_all_files db st1 =
             Inr ([(''id'', VInt i), (''filename'', VText fname), (''mime_type'', VText mtype),
                   (''file_size'', VInt fsize), (''sha256'', VText sha)] # old)"
  using insert_file_keeps_connection [OF assms] sorted_rows_after_insert [OF assms]
  by (simp add: get_all_files_def query_def sql_select_def run_select_def project_def)

subsection \<open>The primary key\<close>

text \<open>
  No two rows share an id: this holds in the empty table and every write keeps it.
\<close>

lemma wf_state_empty: "rows st = [] \<Longrightarrow> wf_state st"
  by (simp add: wf_state_def)

lemma wf_state_exec: "wf_state st \<Longrightarrow> wf_state (exec db c st)"
proof (cases c)
  case (CInsert fname mtype fsize fdata sha)
  assume wf: "wf_state st"
  have "high_water st + 1 \<notin> row_id ` set (rows st)"
    using high_water_ge [of _ st] by fastforce
  then show ?thesis
    using wf CInsert insert_file_cases [of db st fname mtype fsize fdata sha]
    by (auto simp: wf_state_def)
next
  case (CDelete j v)
  assume wf: "wf_state st"
  then show ?thesis using CDelete delete_file_frame [of db st j v]
    by (auto simp: wf_state_def distinct_map_filter)
next
  case CVacuum
  assume "wf_state st"
  then show ?thesis using CVacuum by (simp add: wf_state_def vacuum_rows)
qed

lemma wf_state_run: "wf_state st \<Longrightarrow> wf_state (run db cmds st)"
  unfolding run_def by (induction cmds arbitrary: st) (simp_all add: wf_state_exec)

text \<open>
  The definitions that evaluate the methods on a concrete store.
\<close>

lemmas store_eval = insert_file_def sql_insert_def high_water_def get_connection_def
  sqlite_path_def delete_file_def sql_delete_def vacuum_def sql_vacuum_def run_def
  get_file_by_id_def get_all_files_def get_last_file_def query_def sql_select_def
  run_select_def bind_int_def int64_def project_def first_or_none_def empty_store_def
  wf_state_def

section \<open>Insert, fetch, list, delete\<close>

text \<open>
  C1.  Round trip.  If \<open>insert_file\<close> with the bytes \<open>B\<close> and the digest of \<open>B\<close> returns the
  id \<open>i\<close>, then after any further writes through the store that do not delete \<open>i\<close> (none,
  in particular), \<open>get_file_by_id i\<close> returns the row of \<open>i\<close>: its file data is \<open>B\<close>, its
  sha256 is the digest of \<open>B\<close>, and the other columns are as inserted.  The digest function
  is any function from bytes to text; SHA-256 in hexadecimal is one.
\<close>

theorem insert_then_fetch:
  assumes "insert_file db st fname mtype fsize B (digest B) = (Inr i, st1)"
    and "\<forall>v. CDelete i v \<notin> set cmds"
  shows "get_file_by_id db (run db cmds st1) i =
           Inr (Some [(''id'', VInt i), (''filename'', VText fname), (''mime_type'', VText mtype),
                      (''file_size'', VInt fsize), (''file_data'', VBlob B),
                      (''sha256'', VText (digest B))])"
proof -
  let ?r = "\<lparr>row_id = i, filename = fname, mime_type = mtype, file_size = fsize,
             file_data = B, sha256 = digest B\<rparr>"
  note ins = insert_file_Inr [OF assms(1)]
  have "\<forall>r\<in>set (rows st). row_id r < i"
    using ins(2) high_water_ge [of _ st] by fastforce
  then have "filter (\<lambda>r. row_id r = i) (rows st) = []" by (rule filter_fresh_id)
  then have one: "filter (\<lambda>r. row_id r = i) (rows st1) = [?r]"
    using ins(3) by simp
  have av: "available st1 = available st" using ins(3) by simp
  have "filter (\<lambda>r. row_id r = i) (rows (run db cmds st1)) = [?r] \<and>
      available (run db cmds st1) = available st1"
    using one assms(2) by (rule run_keeps_row)
  moreover from this have "get_connection db (run db cmds st1) = Inr ()"
    using ins(1) av get_connection_available [of "run db cmds st1" st db] by simp
  ultimately show ?thesis using ins(4)
    by (simp add: get_file_by_id_def query_def sql_select_def run_select_def first_or_none_def
        project_def)
qed

text \<open>
  At a concrete input: a file of two bytes inserted into the empty table, followed by a
  second insert, the deletion of that second file, and a compaction.
\<close>

theorem insert_then_fetch_witness:
  "insert_file \<lparr>params = [(''engine'', JStr ''sqlite''), (''database'', JStr ''files.db'')],
                 engine = ''sqlite''\<rparr>
     empty_store ''a.bin'' ''application/octet-stream'' 2 [1, 255] ((\<lambda>b. ''5a'') [1, 255])
   = (Inr 1,
      \<lparr>available = True,
        rows = [\<lparr>row_id = 1, filename = ''a.bin'', mime_type = ''application/octet-stream'',
                 file_size = 2, file_data = [1, 255], sha256 = ''5a''\<rparr>],
        seq = 1, vacuum_runs = 0, compactable = True\<rparr>) \<and>
   (\<forall>v. CDelete 1 v \<notin> set [CInsert ''b.txt'' ''text/plain'' 0 [] ''e3'', CDelete 2 True, CVacuum]) \<and>
   get_file_by_id \<lparr>params = [(''engine'', JStr ''sqlite''), (''database'', JStr ''files.db'')],
                    engine = ''sqlite''\<rparr>
     (run \<lparr>params = [(''engine'', JStr ''sqlite''), (''database'', JStr ''files.db'')],
            engine = ''sqlite''\<rparr>
        [CInsert ''b.txt'' ''text/plain'' 0 [] ''e3'', CDelete 2 True, CVacuum]
        \<lparr>available = True,
          rows = [\<lparr>row_id = 1, filename = ''a.bin'', mime_type = ''application/octet-stream'',
                   file_size = 2, file_data = [1, 255], sha256 = ''5a''\<rparr>],
          seq = 1, vacuum_runs = 0, compactable = True\<rparr>) 1
   = Inr (Some [(''id'', VInt 1), (''filename'', VText ''a.bin''),
                (''mime_type'', VText ''application/octet-stream''), (''file_size'', VInt 2),
                (''file_data'', VBlob [1, 255]), (''sha256'', VText ''5a'')])"
proof -
  let ?db = "\<lparr>params = [(''engine'', JStr ''sqlite''), (''database'', JStr ''files.db'')],
              engine = ''sqlite''\<rparr>"
  let ?st1 = "\<lparr>available = True,
        rows = [\<lparr>row_id = 1, filename = ''a.bin'', mime_type = ''application/octet-stream'',
                 file_size = 2, file_data = [1, 255], sha256 = ''5a''\<rparr>],
        seq = 1, vacuum_runs = 0, compactable = True\<rparr>"
  have h1: "insert_file ?db empty_store ''a.bin'' ''application/octet-stream'' 2 [1, 255]
      ((\<lambda>b. ''5a'') [1, 255]) = (Inr 1, ?st1)"
    by (simp add: store_eval)
  have h2: "\<forall>v. CDelete 1 v \<notin> set [CInsert ''b.txt'' ''text/plain'' 0 [] ''e3'', CDelete 2 True, CVacuum]"
    by simp
  show ?thesis using h1 h2 insert_then_fetch [OF h1 h2] by simp
qed

text \<open>
  C2.  Delete, then fetch.  If \<open>delete_file x\<close> returns \<open>True\<close>, then \<open>get_file_by_id x\<close> on
  the store it leaves returns \<open>None\<close>.
\<close>

theorem delete_then_fetch:
  assumes "delete_file db st x v = (Inr True, st')"
  shows "get_file_by_id db st' x = Inr None"
proof -
  note del = delete_file_True [OF assms]
  have "\<forall>r\<in>set (rows st'). row_id r \<noteq> x" using del(3) by simp
  moreover have "get_connection db st' = Inr ()"
    using del(1,4) get_connection_available [of st' st db] by simp
  ultimately show ?thesis using del(2) by (rule query_by_id_absent [rotated 2])
qed

text \<open>
  At a concrete input: the first of two stored files is deleted.
\<close>

theorem delete_then_fetch_witness:
  "delete_file \<lparr>params = [(''engine'', JStr ''sqlite''), (''database'', JStr ''files.db'')],
       engine = ''sqlite''\<rparr>
     \<lparr>available = True,
       rows = [\<lparr>row_id = 1, filename = ''a.bin'', mime_type = ''application/octet-stream'', file_size = 2,
             file_data = [1, 255], sha256 = ''5a''\<rparr>,
               \<lparr>row_id = 2, filename = ''b.txt'', mime_type = ''text/plain'', file_size = 0,
             file_data = [], sha256 = ''e3''\<rparr>],
       seq = 2, vacuum_runs = 0, compactable = True\<rparr> 1 True
   = (Inr True, \<lparr>available = True,
       rows = [\<lparr>row_id = 2, filename = ''b.txt'', mime_type = ''text/plain'', file_size = 0,
             file_data = [], sha256 = ''e3''\<rparr>],
       seq = 2, vacuum_runs = 1, compactable = True\<rparr>) \<and>
   get_file_by_id \<lparr>params = [(''engine'', JStr ''sqlite''), (''database'', JStr ''files.db'')],
       engine = ''sqlite''\<rparr>
     \<lparr>available = True,
       rows = [\<lparr>row_id = 2, filename = ''b.txt'', mime_type = ''text/plain'', file_size = 0,
             file_data = [], sha256 = ''e3''\<rparr>],
       seq = 2, vacuum_runs = 1, compactable = True\<rparr> 1 = Inr None"
proof -
  have h: "delete_file \<lparr>params = [(''engine'', JStr ''sqlite''), (''database'', JStr ''files.db'')],
       engine = ''sqlite''\<rparr>
     \<lparr>available = True,
       rows = [\<lparr>row_id = 1, filename = ''a.bin'', mime_type = ''application/octet-stream'', file_size = 2,
             file_data = [1, 255], sha256 = ''5a''\<rparr>,
               \<lparr>row_id = 2, filename = ''b.txt'', mime_type = ''text/plain'', file_size = 0,
             file_data = [], sha256 = ''e3''\<rparr>],
       seq = 2, vacuum_runs = 0, compactable = True\<rparr> 1 True
   = (Inr True, \<lparr>available = True,
       rows = [\<lparr>row_id = 2, filename = ''b.txt'', mime_type = ''text/plain'', file_size = 0,
             file_data = [], sha256 = ''e3''\<rparr>],
       seq = 2, vacuum_runs = 1, compactable = True\<rparr>)"
    by (simp add: store_eval)
  show ?thesis using h delete_then_fetch [OF h] by simp
qed

text \<open>
  C3, as the claim states it, holds for every id and promises \<open>False\<close>, not an exception, when
  no row has the id, and \<open>True\<close> whenever a row with the id was there and was removed.  Under
  \<open>sqlite\<close> the id \<open>2^63\<close>, in a table whose only id is 1, makes \<open>delete_file\<close> raise
  \<open>OverflowError\<close>; and
  when the compaction after the delete fails, \<open>delete_file\<close> raises although the row was there
  and has been removed.
\<close>

theorem delete_unbound_id_counterexample:
  "map row_id (rows \<lparr>available = True,
       rows = [\<lparr>row_id = 1, filename = ''a.bin'', mime_type = ''application/octet-stream'', file_size = 2,
             file_data = [1, 255], sha256 = ''5a''\<rparr>],
       seq = 1, vacuum_runs = 0, compactable = True\<rparr>) = [1] \<and>
   delete_file \<lparr>params = [(''engine'', JStr ''sqlite''), (''database'', JStr ''files.db'')],
       engine = ''sqlite''\<rparr>
     \<lparr>available = True,
       rows = [\<lparr>row_id = 1, filename = ''a.bin'', mime_type = ''application/octet-stream'', file_size = 2,
             file_data = [1, 255], sha256 = ''5a''\<rparr>],
       seq = 1, vacuum_runs = 0, compactable = True\<rparr> 9223372036854775808 True
   = (Inl OverflowError, \<lparr>available = True,
       rows = [\<lparr>row_id = 1, filename = ''a.bin'', mime_type = ''application/octet-stream'', file_size = 2,
             file_data = [1, 255], sha256 = ''5a''\<rparr>],
       seq = 1, vacuum_runs = 0, compactable = True\<rparr>) \<and>
   delete_file \<lparr>params = [(''engine'', JStr ''sqlite''), (''database'', JStr ''files.db'')],
       engine = ''sqlite''\<rparr>
     \<lparr>available = True,
       rows = [\<lparr>row_id = 1, filename = ''a.bin'', mime_type = ''application/octet-stream'', file_size = 2,
             file_data = [1, 255], sha256 = ''5a''\<rparr>],
       seq = 1, vacuum_runs = 0, compactable = False\<rparr> 1 True
   = (Inl DatabaseError, \<lparr>available = True, rows = [], seq = 1, vacuum_runs = 0, compactable = False\<rparr>)"
  by (simp add: store_eval)

text \<open>
  C3, amended.  When a connection can be opened and the driver can bind the id \<open>x\<close> (every int
  under \<open>mysql\<close>, the signed 64-bit range under \<open>sqlite\<close>), \<open>delete_file x\<close> leaves the table
  without the rows of id \<open>x\<close>; it returns \<open>False\<close>, and raises nothing, when no row has id \<open>x\<close>;
  when a row has id \<open>x\<close> it returns \<open>True\<close>, unless the compaction that follows the delete
  fails: then it raises, with the row removed.  Under \<open>sqlite\<close> an id outside the signed
  64-bit range raises \<open>OverflowError\<close> and leaves the store as it is.
\<close>

theorem delete_reports_removal:
  assumes "get_connection db st = Inr ()"
  shows "(bind_int db x = Inr () \<longrightarrow>
            rows (snd (delete_file db st x v)) = filter (\<lambda>r. row_id r \<noteq> x) (rows st) \<and>
            fst (delete_file db st x v) =
              (if \<forall>r\<in>set (rows st). row_id r \<noteq> x then Inr False
               else if v \<and> engine db = ''sqlite'' \<and> \<not> compactable st then Inl DatabaseError
               else Inr True)) \<and>
         (bind_int db x = Inr () \<longleftrightarrow> engine db \<noteq> ''sqlite'' \<or> int64 x) \<and>
         (engine db = ''sqlite'' \<and> \<not> int64 x \<longrightarrow>
            delete_file db st x v = (Inl OverflowError, st))"
proof (intro conjI impI)
  assume b: "bind_int db x = Inr ()"
  show "rows (snd (delete_file db st x v)) = filter (\<lambda>r. row_id r \<noteq> x) (rows st)"
    using delete_file_bound [OF assms b, of v] by (simp add: filter_other_id)
  show "fst (delete_file db st x v) =
      (if \<forall>r\<in>set (rows st). row_id r \<noteq> x then Inr False
       else if v \<and> engine db = ''sqlite'' \<and> \<not> compactable st then Inl DatabaseError
       else Inr True)"
    using delete_file_bound [OF assms b, of v] by simp
next
  show "bind_int db x = Inr () \<longleftrightarrow> engine db \<noteq> ''sqlite'' \<or> int64 x"
    by (rule bind_int_Inr)
next
  assume "engine db = ''sqlite'' \<and> \<not> int64 x"
  then have "bind_int db x = Inl OverflowError" by (simp add: bind_int_def)
  with assms show "delete_file db st x v = (Inl OverflowError, st)"
    by (rule delete_file_unbound)
qed

text \<open>
  At concrete inputs, under \<open>sqlite\<close>: a stored id; an id that is not in the table; the id
  \<open>2^63\<close>; a stored id when the compaction fails.  Under \<open>mysql\<close>: the id \<open>2^63\<close>.
\<close>

theorem delete_reports_removal_witness:
  "get_connection \<lparr>params = [(''engine'', JStr ''sqlite''), (''database'', JStr ''files.db'')],
       engine = ''sqlite''\<rparr>
     \<lparr>available = True,
       rows = [\<lparr>row_id = 1, filename = ''a.bin'', mime_type = ''application/octet-stream'', file_size = 2,
             file_data = [1, 255], sha256 = ''5a''\<rparr>,
               \<lparr>row_id = 2, filename = ''b.txt'', mime_type = ''text/plain'', file_size = 0,
             file_data = [], sha256 = ''e3''\<rparr>],
       seq = 2, vacuum_runs = 0, compactable = True\<rparr> = Inr () \<and>
   bind_int \<lparr>params = [(''engine'', JStr ''sqlite''), (''database'', JStr ''files.db'')],
       engine = ''sqlite''\<rparr> 2 = Inr () \<and>
   fst (delete_file \<lparr>params = [(''engine'', JStr ''sqlite''), (''database'', JStr ''files.db'')],
       engine = ''sqlite''\<rparr>
          \<lparr>available = True,
       rows = [\<lparr>row_id = 1, filename = ''a.bin'', mime_type = ''application/octet-stream'', file_size = 2,
             file_data = [1, 255], sha256 = ''5a''\<rparr>,
               \<lparr>row_id = 2, filename = ''b.txt'', mime_type = ''text/plain'', file_size = 0,
             file_data = [], sha256 = ''e3''\<rparr>],
       seq = 2, vacuum_runs = 0, compactable = True\<rparr> 2 False) = Inr True \<and>
   rows (snd (delete_file \<lparr>params = [(''engine'', JStr ''sqlite''), (''database'', JStr ''files.db'')],
       engine = ''sqlite''\<rparr>
          \<lparr>available = True,
       rows = [\<lparr>row_id = 1, filename = ''a.bin'', mime_type = ''application/octet-stream'', file_size = 2,
             file_data = [1, 255], sha256 = ''5a''\<rparr>,
               \<lparr>row_id = 2, filename = ''b.txt'', mime_type = ''text/plain'', file_size = 0,
             file_data = [], sha256 = ''e3''\<rparr>],
       seq = 2, vacuum_runs = 0, compactable = True\<rparr> 2 False)) = [\<lparr>row_id = 1, filename = ''a.bin'', mime_type = ''application/octet-stream'', file_size = 2,
             file_data = [1, 255], sha256 = ''5a''\<rparr>] \<and>
   fst (delete_file \<lparr>params = [(''engine'', JStr ''sqlite''), (''database'', JStr ''files.db'')],
       engine = ''sqlite''\<rparr>
          \<lparr>available = True,
       rows = [\<lparr>row_id = 1, filename = ''a.bin'', mime_type = ''application/octet-stream'', file_size = 2,
             file_data = [1, 255], sha256 = ''5a''\<rparr>,
               \<lparr>row_id = 2, filename = ''b.txt'', mime_type = ''text/plain'', file_size = 0,
             file_data = [], sha256 = ''e3''\<rparr>],
       seq = 2, vacuum_runs = 0, compactable = True\<rparr> 7 False) = Inr False \<and>
   \<not> int64 9223372036854775808 \<and>
   delete_file \<lparr>params = [(''engine'', JStr ''sqlite''), (''database'', JStr ''files.db'')],
       engine = ''sqlite''\<rparr>
     \<lparr>available = True,
       rows = [\<lparr>row_id = 1, filename = ''a.bin'', mime_type = ''application/octet-stream'', file_size = 2,
             file_data = [1, 255], sha256 = ''5a''\<rparr>,
               \<lparr>row_id = 2, filename = ''b.txt'', mime_type = ''text/plain'', file_size = 0,
             file_data = [], sha256 = ''e3''\<rparr>],
       seq = 2, vacuum_runs = 0, compactable = True\<rparr> 9223372036854775808 False
   = (Inl OverflowError, \<lparr>available = True,
       rows = [\<lparr>row_id = 1, filename = ''a.bin'', mime_type = ''application/octet-stream'', file_size = 2,
             file_data = [1, 255], sha256 = ''5a''\<rparr>,
               \<lparr>row_id = 2, filename = ''b.txt'', mime_type = ''text/plain'', file_size = 0,
             file_data = [], sha256 = ''e3''\<rparr>],
       seq = 2, vacuum_runs = 0, compactable = True\<rparr>) \<and>
   get_connection \<lparr>params = [(''engine'', JStr ''sqlite''), (''database'', JStr ''files.db'')],
       engine = ''sqlite''\<rparr>
     \<lparr>available = True,
       rows = [\<lparr>row_id = 1, filename = ''a.bin'', mime_type = ''application/octet-stream'', file_size = 2,
             file_data = [1, 255], sha256 = ''5a''\<rparr>],
       seq = 1, vacuum_runs = 0, compactable = False\<rparr> = Inr () \<and>
   fst (delete_file \<lparr>params = [(''engine'', JStr ''sqlite''), (''database'', JStr ''files.db'')],
       engine = ''sqlite''\<rparr>
          \<lparr>available = True,
       rows = [\<lparr>row_id = 1, filename = ''a.bin'', mime_type = ''application/octet-stream'', file_size = 2,
             file_data = [1, 255], sha256 = ''5a''\<rparr>],
       seq = 1, vacuum_runs = 0, compactable = False\<rparr> 1 True) = Inl DatabaseError \<and>
   get_connection \<lparr>params = [(''host'', JStr ''db.local''), (''port'', JInt 3306), (''user'', JStr ''root''),
                (''password'', JStr ''pw''), (''database'', JStr ''files'')],
       engine = ''mysql''\<rparr>
     \<lparr>available = True,
       rows = [\<lparr>row_id = 1, filename = ''a.bin'', mime_type = ''application/octet-stream'', file_size = 2,
             file_data = [1, 255], sha256 = ''5a''\<rparr>,
               \<lparr>row_id = 2, filename = ''b.txt'', mime_type = ''text/plain'', file_size = 0,
             file_data = [], sha256 = ''e3''\<rparr>],
       seq = 2, vacuum_runs = 0, compactable = True\<rparr> = Inr () \<and>
   bind_int \<lparr>params = [(''host'', JStr ''db.local''), (''port'', JInt 3306), (''user'', JStr ''root''),
                (''password'', JStr ''pw''), (''database'', JStr ''files'')],
       engine = ''mysql''\<rparr> 9223372036854775808 = Inr () \<and>
   fst (delete_file \<lparr>params = [(''host'', JStr ''db.local''), (''port'', JInt 3306), (''user'', JStr ''root''),
                (''password'', JStr ''pw''), (''database'', JStr ''files'')],
       engine = ''mysql''\<rparr>
          \<lparr>available = True,
       rows = [\<lparr>row_id = 1, filename = ''a.bin'', mime_type = ''application/octet-stream'', file_size = 2,
             file_data = [1, 255], sha256 = ''5a''\<rparr>,
               \<lparr>row_id = 2, filename = ''b.txt'', mime_type = ''text/plain'', file_size = 0,
             file_data = [], sha256 = ''e3''\<rparr>],
       seq = 2, vacuum_runs = 0, compactable = True\<rparr> 9223372036854775808 True) = Inr False"
proof -
  have h: "get_connection \<lparr>params = [(''engine'', JStr ''sqlite''), (''database'', JStr ''files.db'')],
       engine = ''sqlite''\<rparr>
     \<lparr>available = True,
       rows = [\<lparr>row_id = 1, filename = ''a.bin'', mime_type = ''application/octet-stream'', file_size = 2,
             file_data = [1, 255], sha256 = ''5a''\<rparr>,
               \<lparr>row_id = 2, filename = ''b.txt'', mime_type = ''text/plain'', file_size = 0,
             file_data = [], sha256 = ''e3''\<rparr>],
       seq = 2, vacuum_runs = 0, compactable = True\<rparr> = Inr ()"
    by (simp add: get_connection_def sqlite_path_def)
  have hn: "get_connection \<lparr>params = [(''engine'', JStr ''sqlite''), (''database'', JStr ''files.db'')],
       engine = ''sqlite''\<rparr>
     \<lparr>available = True,
       rows = [\<lparr>row_id = 1, filename = ''a.bin'', mime_type = ''application/octet-stream'', file_size = 2,
             file_data = [1, 255], sha256 = ''5a''\<rparr>],
       seq = 1, vacuum_runs = 0, compactable = False\<rparr> = Inr ()"
    by (simp add: get_connection_def sqlite_path_def)
  have hm: "get_connection \<lparr>params = [(''host'', JStr ''db.local''), (''port'', JInt 3306), (''user'', JStr ''root''),
                (''password'', JStr ''pw''), (''database'', JStr ''files'')],
       engine = ''mysql''\<rparr>
     \<lparr>available = True,
       rows = [\<lparr>row_id = 1, filename = ''a.bin'', mime_type = ''application/octet-stream'', file_size = 2,
             file_data = [1, 255], sha256 = ''5a''\<rparr>,
               \<lparr>row_id = 2, filename = ''b.txt'', mime_type = ''text/plain'', file_size = 0,
             file_data = [], sha256 = ''e3''\<rparr>],
       seq = 2, vacuum_runs = 0, compactable = True\<rparr> = Inr ()"
    by (simp add: get_connection_def)
  show ?thesis
    using h hn hm delete_reports_removal [OF h, of 2 False] delete_reports_removal [OF h, of 7 False]
      delete_reports_removal [OF h, of 9223372036854775808 False]
      delete_reports_removal [OF hn, of 1 True]
      delete_reports_removal [OF hm, of 9223372036854775808 True]
    by (simp add: bind_int_def int64_def)
qed

text \<open>
  C9.  When \<open>delete_file x\<close> finds no row, that is, its \<open>DELETE\<close> runs and its row count is 0
  (a connection opens, the driver binds \<open>x\<close>, no row has id \<open>x\<close>), it returns \<open>False\<close> and the
  store is exactly what it was.  Whenever no row has id \<open>x\<close>, whatever \<open>delete_file x\<close>
  returns or raises, the store is left as it was.  \<open>delete_file\<close> runs one compaction pass
  when it removed a row, was asked to vacuum, the engine is \<open>sqlite\<close> and the engine can run
  it, and none otherwise.  \<open>vacuum\<close> itself runs one pass for \<open>sqlite\<close> and does nothing, and
  succeeds, for any other engine.
\<close>

theorem delete_compaction:
  "(get_connection db st = Inr () \<and> sql_delete db x st = Inr (0, st1) \<longrightarrow>
      delete_file db st x v = (Inr False, st)) \<and>
   (get_connection db st = Inr () \<and> bind_int db x = Inr () \<and>
    (\<forall>r\<in>set (rows st). row_id r \<noteq> x) \<longrightarrow>
      delete_file db st x v = (Inr False, st)) \<and>
   ((\<forall>r\<in>set (rows st). row_id r \<noteq> x) \<longrightarrow> snd (delete_file db st x v) = st) \<and>
   vacuum_runs (snd (delete_file db st x v)) =
      vacuum_runs st +
        (if get_connection db st = Inr () \<and> bind_int db x = Inr () \<and>
            (\<exists>r\<in>set (rows st). row_id r = x) \<and>
            v \<and> engine db = ''sqlite'' \<and> compactable st then 1 else 0) \<and>
   (engine db = ''sqlite'' \<and> get_connection db st = Inr () \<and> compactable st \<longrightarrow>
      vacuum db st = (Inr (), st\<lparr>vacuum_runs := vacuum_runs st + 1\<rparr>)) \<and>
   (engine db \<noteq> ''sqlite'' \<longrightarrow> vacuum db st = (Inr (), st))"
proof (intro conjI impI)
  show "delete_file db st x v = (Inr False, st)"
    if "get_connection db st = Inr () \<and> sql_delete db x st = Inr (0, st1)"
    using that by (simp add: sql_delete_none delete_file_bound)
  show "delete_file db st x v = (Inr False, st)"
    if "get_connection db st = Inr () \<and> bind_int db x = Inr () \<and>
        (\<forall>r\<in>set (rows st). row_id r \<noteq> x)"
    using that by (simp add: delete_file_bound)
  show "vacuum db st = (Inr (), st\<lparr>vacuum_runs := vacuum_runs st + 1\<rparr>)"
    if "engine db = ''sqlite'' \<and> get_connection db st = Inr () \<and> compactable st"
    using that by (simp add: vacuum_sqlite)
  show "vacuum db st = (Inr (), st)" if "engine db \<noteq> ''sqlite''"
    using that by (rule vacuum_other)
  show "snd (delete_file db st x v) = st" if absent: "\<forall>r\<in>set (rows st). row_id r \<noteq> x"
  proof (cases "get_connection db st")
    case (Inl e)
    then show ?thesis by (simp add: delete_file_disconnected)
  next
    case (Inr u)
    then have c: "get_connection db st = Inr ()" by simp
    show ?thesis
    proof (cases "bind_int db x")
      case (Inl e)
      then show ?thesis using c by (simp add: delete_file_unbound)
    next
      case (Inr w)
      then have "bind_int db x = Inr ()" by simp
      then show ?thesis using c absent by (simp add: delete_file_bound)
    qed
  qed
  show "vacuum_runs (snd (delete_file db st x v)) =
      vacuum_runs st +
        (if get_connection db st = Inr () \<and> bind_int db x = Inr () \<and>
            (\<exists>r\<in>set (rows st). row_id r = x) \<and>
            v \<and> engine db = ''sqlite'' \<and> compactable st then 1 else 0)"
  proof (cases "get_connection db st")
    case (Inl e)
    then show ?thesis by (simp add: delete_file_disconnected)
  next
    case (Inr u)
    then have c: "get_connection db st = Inr ()" by simp
    show ?thesis
    proof (cases "bind_int db x")
      case (Inl e)
      then show ?thesis using c by (simp add: delete_file_unbound)
    next
      case (Inr w)
      then have "bind_int db x = Inr ()" by simp
      then show ?thesis using c by (auto simp: delete_file_bound)
    qed
  qed
qed

text \<open>
  At concrete inputs: a missing id; a stored id with and without \<open>vacuum_after\<close>; the same
  under \<open>mysql\<close>; a compaction that fails; and \<open>vacuum\<close> under both engines.
\<close>

theorem delete_compaction_witness:
  "get_connection \<lparr>params = [(''engine'', JStr ''sqlite''), (''database'', JStr ''files.db'')],
       engine = ''sqlite''\<rparr>
     \<lparr>available = True,
       rows = [\<lparr>row_id = 1, filename = ''a.bin'', mime_type = ''application/octet-stream'', file_size = 2,
             file_data = [1, 255], sha256 = ''5a''\<rparr>],
       seq = 1, vacuum_runs = 0, compactable = True\<rparr> = Inr () \<and>
   sql_delete \<lparr>params = [(''engine'', JStr ''sqlite''), (''database'', JStr ''files.db'')],
       engine = ''sqlite''\<rparr> 7
     \<lparr>available = True,
       rows = [\<lparr>row_id = 1, filename = ''a.bin'', mime_type = ''application/octet-stream'', file_size = 2,
             file_data = [1, 255], sha256 = ''5a''\<rparr>],
       seq = 1, vacuum_runs = 0, compactable = True\<rparr>
   = Inr (0, \<lparr>available = True,
       rows = [\<lparr>row_id = 1, filename = ''a.bin'', mime_type = ''application/octet-stream'', file_size = 2,
             file_data = [1, 255], sha256 = ''5a''\<rparr>],
       seq = 1, vacuum_runs = 0, compactable = True\<rparr>) \<and>
   delete_file \<lparr>params = [(''engine'', JStr ''sqlite''), (''database'', JStr ''files.db'')],
       engine = ''sqlite''\<rparr>
     \<lparr>available = True,
       rows = [\<lparr>row_id = 1, filename = ''a.bin'', mime_type = ''application/octet-stream'', file_size = 2,
             file_data = [1, 255], sha256 = ''5a''\<rparr>],
       seq = 1, vacuum_runs = 0, compactable = True\<rparr> 7 True
   = (Inr False, \<lparr>available = True,
       rows = [\<lparr>row_id = 1, filename = ''a.bin'', mime_type = ''application/octet-stream'', file_size = 2,
             file_data = [1, 255], sha256 = ''5a''\<rparr>],
       seq = 1, vacuum_runs = 0, compactable = True\<rparr>) \<and>
   snd (delete_file \<lparr>params = [(''engine'', JStr ''sqlite''), (''database'', JStr ''files.db'')],
       engine = ''sqlite''\<rparr>
     \<lparr>available = True,
       rows = [\<lparr>row_id = 1, filename = ''a.bin'', mime_type = ''application/octet-stream'', file_size = 2,
             file_data = [1, 255], sha256 = ''5a''\<rparr>],
       seq = 1, vacuum_runs = 0, compactable = True\<rparr> 9223372036854775808 True)
   = \<lparr>available = True,
       rows = [\<lparr>row_id = 1, filename = ''a.bin'', mime_type = ''application/octet-stream'', file_size = 2,
             file_data = [1, 255], sha256 = ''5a''\<rparr>],
       seq = 1, vacuum_runs = 0, compactable = True\<rparr> \<and>
   vacuum_runs (snd (delete_file \<lparr>params = [(''engine'', JStr ''sqlite''), (''database'', JStr ''files.db'')],
       engine = ''sqlite''\<rparr>
     \<lparr>available = True,
       rows = [\<lparr>row_id = 1, filename = ''a.bin'', mime_type = ''application/octet-stream'', file_size = 2,
             file_data = [1, 255], sha256 = ''5a''\<rparr>],
       seq = 1, vacuum_runs = 0, compactable = True\<rparr> 1 True)) = 1 \<and>
   vacuum_runs (snd (delete_file \<lparr>params = [(''engine'', JStr ''sqlite''), (''database'', JStr ''files.db'')],
       engine = ''sqlite''\<rparr>
     \<lparr>available = True,
       rows = [\<lparr>row_id = 1, filename = ''a.bin'', mime_type = ''application/octet-stream'', file_size = 2,
             file_data = [1, 255], sha256 = ''5a''\<rparr>],
       seq = 1, vacuum_runs = 0, compactable = True\<rparr> 1 False)) = 0 \<and>
   vacuum_runs (snd (delete_file \<lparr>params = [(''engine'', JStr ''sqlite''), (''database'', JStr ''files.db'')],
       engine = ''sqlite''\<rparr>
     \<lparr>available = True,
       rows = [\<lparr>row_id = 1, filename = ''a.bin'', mime_type = ''application/octet-stream'', file_size = 2,
             file_data = [1, 255], sha256 = ''5a''\<rparr>],
       seq = 1, vacuum_runs = 0, compactable = False\<rparr> 1 True)) = 0 \<and>
   vacuum_runs (snd (delete_file \<lparr>params = [(''host'', JStr ''db.local''), (''port'', JInt 3306), (''user'', JStr ''root''),
                (''password'', JStr ''pw''), (''database'', JStr ''files'')],
       engine = ''mysql''\<rparr>
     \<lparr>available = True,
       rows = [\<lparr>row_id = 1, filename = ''a.bin'', mime_type = ''application/octet-stream'', file_size = 2,
             file_data = [1, 255], sha256 = ''5a''\<rparr>],
       seq = 1, vacuum_runs = 0, compactable = True\<rparr> 1 True)) = 0 \<and>
   vacuum \<lparr>params = [(''engine'', JStr ''sqlite''), (''database'', JStr ''files.db'')],
       engine = ''sqlite''\<rparr>
     \<lparr>available = True,
       rows = [\<lparr>row_id = 1, filename = ''a.bin'', mime_type = ''application/octet-stream'', file_size = 2,
             file_data = [1, 255], sha256 = ''5a''\<rparr>],
       seq = 1, vacuum_runs = 0, compactable = True\<rparr>
   = (Inr (), \<lparr>available = True,
       rows = [\<lparr>row_id = 1, filename = ''a.bin'', mime_type = ''application/octet-stream'', file_size = 2,
             file_data = [1, 255], sha256 = ''5a''\<rparr>],
       seq = 1, vacuum_runs = 1, compactable = True\<rparr>) \<and>
   vacuum \<lparr>params = [(''host'', JStr ''db.local''), (''port'', JInt 3306), (''user'', JStr ''root''),
                (''password'', JStr ''pw''), (''database'', JStr ''files'')],
       engine = ''mysql''\<rparr>
     \<lparr>available = True,
       rows = [\<lparr>row_id = 1, filename = ''a.bin'', mime_type = ''application/octet-stream'', file_size = 2,
             file_data = [1, 255], sha256 = ''5a''\<rparr>],
       seq = 1, vacuum_runs = 0, compactable = True\<rparr>
   = (Inr (), \<lparr>available = True,
       rows = [\<lparr>row_id = 1, filename = ''a.bin'', mime_type = ''application/octet-stream'', file_size = 2,
             file_data = [1, 255], sha256 = ''5a''\<rparr>],
       seq = 1, vacuum_runs = 0, compactable = True\<rparr>)"
  using delete_compaction [of "\<lparr>params = [(''engine'', JStr ''sqlite''), (''database'', JStr ''files.db'')],
       engine = ''sqlite''\<rparr>"
      "\<lparr>available = True,
       rows = [\<lparr>row_id = 1, filename = ''a.bin'', mime_type = ''application/octet-stream'', file_size = 2,
             file_data = [1, 255], sha256 = ''5a''\<rparr>],
       seq = 1, vacuum_runs = 0, compactable = True\<rparr>" 7
      "\<lparr>available = True,
       rows = [\<lparr>row_id = 1, filename = ''a.bin'', mime_type = ''application/octet-stream'', file_size = 2,
             file_data = [1, 255], sha256 = ''5a''\<rparr>],
       seq = 1, vacuum_runs = 0, compactable = True\<rparr>" True]
    delete_compaction [of "\<lparr>params = [(''engine'', JStr ''sqlite''), (''database'', JStr ''files.db'')],
       engine = ''sqlite''\<rparr>"
      "\<lparr>available = True,
       rows = [\<lparr>row_id = 1, filename = ''a.bin'', mime_type = ''application/octet-stream'', file_size = 2,
             file_data = [1, 255], sha256 = ''5a''\<rparr>],
       seq = 1, vacuum_runs = 0, compactable = True\<rparr>" 9223372036854775808
      "\<lparr>available = True,
       rows = [\<lparr>row_id = 1, filename = ''a.bin'', mime_type = ''application/octet-stream'', file_size = 2,
             file_data = [1, 255], sha256 = ''5a''\<rparr>],
       seq = 1, vacuum_runs = 0, compactable = True\<rparr>" True]
    delete_compaction [of "\<lparr>params = [(''engine'', JStr ''sqlite''), (''database'', JStr ''files.db'')],
       engine = ''sqlite''\<rparr>"
      "\<lparr>available = True,
       rows = [\<lparr>row_id = 1, filename = ''a.bin'', mime_type = ''application/octet-stream'', file_size = 2,
             file_data = [1, 255], sha256 = ''5a''\<rparr>],
       seq = 1, vacuum_runs = 0, compactable = True\<rparr>" 1
      "\<lparr>available = True,
       rows = [\<lparr>row_id = 1, filename = ''a.bin'', mime_type = ''application/octet-stream'', file_size = 2,
             file_data = [1, 255], sha256 = ''5a''\<rparr>],
       seq = 1, vacuum_runs = 0, compactable = True\<rparr>" True]
    delete_compaction [of "\<lparr>params = [(''engine'', JStr ''sqlite''), (''database'', JStr ''files.db'')],
       engine = ''sqlite''\<rparr>"
      "\<lparr>available = True,
       rows = [\<lparr>row_id = 1, filename = ''a.bin'', mime_type = ''application/octet-stream'', file_size = 2,
             file_data = [1, 255], sha256 = ''5a''\<rparr>],
       seq = 1, vacuum_runs = 0, compactable = True\<rparr>" 1
      "\<lparr>available = True,
       rows = [\<lparr>row_id = 1, filename = ''a.bin'', mime_type = ''application/octet-stream'', file_size = 2,
             file_data = [1, 255], sha256 = ''5a''\<rparr>],
       seq = 1, vacuum_runs = 0, compactable = True\<rparr>" False]
    delete_compaction [of "\<lparr>params = [(''engine'', JStr ''sqlite''), (''database'', JStr ''files.db'')],
       engine = ''sqlite''\<rparr>"
      "\<lparr>available = True,
       rows = [\<lparr>row_id = 1, filename = ''a.bin'', mime_type = ''application/octet-stream'', file_size = 2,
             file_data = [1, 255], sha256 = ''5a''\<rparr>],
       seq = 1, vacuum_runs = 0, compactable = False\<rparr>" 1
      "\<lparr>available = True,
       rows = [\<lparr>row_id = 1, filename = ''a.bin'', mime_type = ''application/octet-stream'', file_size = 2,
             file_data = [1, 255], sha256 = ''5a''\<rparr>],
       seq = 1, vacuum_runs = 0, compactable = True\<rparr>" True]
    delete_compaction [of "\<lparr>params = [(''host'', JStr ''db.local''), (''port'', JInt 3306), (''user'', JStr ''root''),
                (''password'', JStr ''pw''), (''database'', JStr ''files'')],
       engine = ''mysql''\<rparr>"
      "\<lparr>available = True,
       rows = [\<lparr>row_id = 1, filename = ''a.bin'', mime_type = ''application/octet-stream'', file_size = 2,
             file_data = [1, 255], sha256 = ''5a''\<rparr>],
       seq = 1, vacuum_runs = 0, compactable = True\<rparr>" 1
      "\<lparr>available = True,
       rows = [\<lparr>row_id = 1, filename = ''a.bin'', mime_type = ''application/octet-stream'', file_size = 2,
             file_data = [1, 255], sha256 = ''5a''\<rparr>],
       seq = 1, vacuum_runs = 0, compactable = True\<rparr>" True]
  by (simp add: get_connection_def sqlite_path_def sql_delete_def bind_int_def int64_def)

text \<open>
  C4.  Listing.  When a connection can be opened and the ids of the table are distinct,
  \<open>get_all_files\<close> returns one dict per stored row, with the keys \<open>id\<close>, \<open>filename\<close>,
  \<open>mime_type\<close>, \<open>file_size\<close> and \<open>sha256\<close> and no \<open>file_data\<close>, the ids strictly descending.
  After three successful inserts A, B, C the listing is C, B, A followed by the listing from
  before; from an empty table it is exactly C, B, A.
\<close>

theorem get_all_files_listing:
  assumes "get_connection db st = Inr ()" and "wf_state st"
  shows "(\<exists>rs. get_all_files db st =
             Inr (map (\<lambda>r. [(''id'', VInt (row_id r)), (''filename'', VText (filename r)),
                             (''mime_type'', VText (mime_type r)),
                             (''file_size'', VInt (file_size r)),
                             (''sha256'', VText (sha256 r))]) rs) \<and>
           mset rs = mset (rows st) \<and>
           sorted_wrt (\<lambda>a b. row_id b < row_id a) rs) \<and>
         (insert_file db st fa ma za da ha = (Inr a, st1) \<and>
          insert_file db st1 fb mb zb db' hb = (Inr b, st2) \<and>
          insert_file db st2 fc mc zc dc hc = (Inr c, st3) \<longrightarrow>
            (\<exists>old. get_all_files db st = Inr old \<and>
               (rows st = [] \<longrightarrow> old = []) \<and>
               get_all_files db st3 =
                 Inr ([(''id'', VInt c), (''filename'', VText fc), (''mime_type'', VText mc),
                       (''file_size'', VInt zc), (''sha256'', VText hc)] #
                      [(''id'', VInt b), (''filename'', VText fb), (''mime_type'', VText mb),
                       (''file_size'', VInt zb), (''sha256'', VText hb)] #
                      [(''id'', VInt a), (''filename'', VText fa), (''mime_type'', VText ma),
                       (''file_size'', VInt za), (''sha256'', VText ha)] # old)))"
proof (intro conjI impI)
  let ?rs = "sort_key (\<lambda>r. - row_id r) (rows st)"
  have "get_all_files db st =
      Inr (map (\<lambda>r. [(''id'', VInt (row_id r)), (''filename'', VText (filename r)),
                      (''mime_type'', VText (mime_type r)),
                      (''file_size'', VInt (file_size r)),
                      (''sha256'', VText (sha256 r))]) ?rs)"
    using assms(1) by (simp add: get_all_files_def query_def sql_select_def run_select_def project_def)
  moreover have "mset ?rs = mset (rows st)" by simp
  moreover have "sorted_wrt (\<lambda>a b. row_id b < row_id a) ?rs"
    using assms(2) unfolding wf_state_def by (rule sort_desc_sorted)
  ultimately show "\<exists>rs. get_all_files db st =
             Inr (map (\<lambda>r. [(''id'', VInt (row_id r)), (''filename'', VText (filename r)),
                             (''mime_type'', VText (mime_type r)),
                             (''file_size'', VInt (file_size r)),
                             (''sha256'', VText (sha256 r))]) rs) \<and>
           mset rs = mset (rows st) \<and>
           sorted_wrt (\<lambda>a b. row_id b < row_id a) rs"
    by blast
next
  assume abc: "insert_file db st fa ma za da ha = (Inr a, st1) \<and>
          insert_file db st1 fb mb zb db' hb = (Inr b, st2) \<and>
          insert_file db st2 fc mc zc dc hc = (Inr c, st3)"
  from abc listing_after_insert [of db st fa ma za da ha a st1]
  obtain old where o: "get_all_files db st = Inr old" "rows st = [] \<longrightarrow> old = []"
    and l1: "get_all_files db st1 =
       Inr ([(''id'', VInt a), (''filename'', VText fa), (''mime_type'', VText ma),
             (''file_size'', VInt za), (''sha256'', VText ha)] # old)"
    by blast
  from abc listing_after_insert [of db st1 fb mb zb db' hb b st2] l1
  have l2: "get_all_files db st2 =
       Inr ([(''id'', VInt b), (''filename'', VText fb), (''mime_type'', VText mb),
             (''file_size'', VInt zb), (''sha256'', VText hb)] #
            [(''id'', VInt a), (''filename'', VText fa), (''mime_type'', VText ma),
             (''file_size'', VInt za), (''sha256'', VText ha)] # old)"
    by auto
  from abc listing_after_insert [of db st2 fc mc zc dc hc c st3] l2
  have "get_all_files db st3 =
       Inr ([(''id'', VInt c), (''filename'', VText fc), (''mime_type'', VText mc),
             (''file_size'', VInt zc), (''sha256'', VText hc)] #
            [(''id'', VInt b), (''filename'', VText fb), (''mime_type'', VText mb),
             (''file_size'', VInt zb), (''sha256'', VText hb)] #
            [(''id'', VInt a), (''filename'', VText fa), (''mime_type'', VText ma),
             (''file_size'', VInt za), (''sha256'', VText ha)] # old)"
    by auto
  with o show "\<exists>old. get_all_files db st = Inr old \<and>
               (rows st = [] \<longrightarrow> old = []) \<and>
               get_all_files db st3 =
                 Inr ([(''id'', VInt c), (''filename'', VText fc), (''mime_type'', VText mc),
                       (''file_size'', VInt zc), (''sha256'', VText hc)] #
                      [(''id'', VInt b), (''filename'', VText fb), (''mime_type'', VText mb),
                       (''file_size'', VInt zb), (''sha256'', VText hb)] #
                      [(''id'', VInt a), (''filename'', VText fa), (''mime_type'', VText ma),
                       (''file_size'', VInt za), (''sha256'', VText ha)] # old)"
    by blast
qed

text \<open>
  At a concrete input: three files inserted into the empty table.
\<close>

theorem get_all_files_listing_witness:
  "get_connection \<lparr>params = [(''engine'', JStr ''sqlite''), (''database'', JStr ''files.db'')],
       engine = ''sqlite''\<rparr> empty_store = Inr () \<and>
   wf_state empty_store \<and>
   insert_file \<lparr>params = [(''engine'', JStr ''sqlite''), (''database'', JStr ''files.db'')],
       engine = ''sqlite''\<rparr>
     empty_store
     ''a.bin'' ''application/octet-stream'' 2 [1, 255] ''5a''
   = (Inr 1, \<lparr>available = True,
       rows = [\<lparr>row_id = 1, filename = ''a.bin'', mime_type = ''application/octet-stream'', file_size = 2,
             file_data = [1, 255], sha256 = ''5a''\<rparr>],
       seq = 1, vacuum_runs = 0, compactable = True\<rparr>) \<and>
   insert_file \<lparr>params = [(''engine'', JStr ''sqlite''), (''database'', JStr ''files.db'')],
       engine = ''sqlite''\<rparr>
     \<lparr>available = True,
       rows = [\<lparr>row_id = 1, filename = ''a.bin'', mime_type = ''application/octet-stream'', file_size = 2,
             file_data = [1, 255], sha256 = ''5a''\<rparr>],
       seq = 1, vacuum_runs = 0, compactable = True\<rparr>
     ''b.txt'' ''text/plain'' 0 [] ''e3''
   = (Inr 2, \<lparr>available = True,
       rows = [\<lparr>row_id = 1, filename = ''a.bin'', mime_type = ''application/octet-stream'', file_size = 2,
             file_data = [1, 255], sha256 = ''5a''\<rparr>,
               \<lparr>row_id = 2, filename = ''b.txt'', mime_type = ''text/plain'', file_size = 0,
             file_data = [], sha256 = ''e3''\<rparr>],
       seq = 2, vacuum_runs = 0, compactable = True\<rparr>) \<and>
   insert_file \<lparr>params = [(''engine'', JStr ''sqlite''), (''database'', JStr ''files.db'')],
       engine = ''sqlite''\<rparr>
     \<lparr>available = True,
       rows = [\<lparr>row_id = 1, filename = ''a.bin'', mime_type = ''application/octet-stream'', file_size = 2,
             file_data = [1, 255], sha256 = ''5a''\<rparr>,
               \<lparr>row_id = 2, filename = ''b.txt'', mime_type = ''text/plain'', file_size = 0,
             file_data = [], sha256 = ''e3''\<rparr>],
       seq = 2, vacuum_runs = 0, compactable = True\<rparr>
     ''c.txt'' ''text/plain'' 1 [7] ''7e''
   = (Inr 3, \<lparr>available = True,
       rows = [\<lparr>row_id = 1, filename = ''a.bin'', mime_type = ''application/octet-stream'', file_size = 2,
             file_data = [1, 255], sha256 = ''5a''\<rparr>,
               \<lparr>row_id = 2, filename = ''b.txt'', mime_type = ''text/plain'', file_size = 0,
             file_data = [], sha256 = ''e3''\<rparr>,
               \<lparr>row_id = 3, filename = ''c.txt'', mime_type = ''text/plain'', file_size = 1,
             file_data = [7], sha256 = ''7e''\<rparr>],
       seq = 3, vacuum_runs = 0, compactable = True\<rparr>) \<and>
   get_all_files \<lparr>params = [(''engine'', JStr ''sqlite''), (''database'', JStr ''files.db'')],
       engine = ''sqlite''\<rparr>
     \<lparr>available = True,
       rows = [\<lparr>row_id = 1, filename = ''a.bin'', mime_type = ''application/octet-stream'', file_size = 2,
             file_data = [1, 255], sha256 = ''5a''\<rparr>,
               \<lparr>row_id = 2, filename = ''b.txt'', mime_type = ''text/plain'', file_size = 0,
             file_data = [], sha256 = ''e3''\<rparr>,
               \<lparr>row_id = 3, filename = ''c.txt'', mime_type = ''text/plain'', file_size = 1,
             file_data = [7], sha256 = ''7e''\<rparr>],
       seq = 3, vacuum_runs = 0, compactable = True\<rparr>
   = Inr [[(''id'', VInt 3), (''filename'', VText ''c.txt''), (''mime_type'', VText ''text/plain''),
         (''file_size'', VInt 1), (''sha256'', VText ''7e'')],
          [(''id'', VInt 2), (''filename'', VText ''b.txt''), (''mime_type'', VText ''text/plain''),
         (''file_size'', VInt 0), (''sha256'', VText ''e3'')],
          [(''id'', VInt 1), (''filename'', VText ''a.bin''), (''mime_type'', VText ''application/octet-stream''),
         (''file_size'', VInt 2), (''sha256'', VText ''5a'')]]"
proof -
  have c: "get_connection \<lparr>params = [(''engine'', JStr ''sqlite''), (''database'', JStr ''files.db'')],
       engine = ''sqlite''\<rparr> empty_store = Inr ()"
    by (simp add: store_eval)
  have w: "wf_state empty_store"
    by (simp add: store_eval)
  have a: "insert_file \<lparr>params = [(''engine'', JStr ''sqlite''), (''database'', JStr ''files.db'')],
       engine = ''sqlite''\<rparr>
     empty_store
     ''a.bin'' ''application/octet-stream'' 2 [1, 255] ''5a''
   = (Inr 1, \<lparr>available = True,
       rows = [\<lparr>row_id = 1, filename = ''a.bin'', mime_type = ''application/octet-stream'', file_size = 2,
             file_data = [1, 255], sha256 = ''5a''\<rparr>],
       seq = 1, vacuum_runs = 0, compactable = True\<rparr>)"
    by (simp add: store_eval)
  have b: "insert_file \<lparr>params = [(''engine'', JStr ''sqlite''), (''database'', JStr ''files.db'')],
       engine = ''sqlite''\<rparr>
     \<lparr>available = True,
       rows = [\<lparr>row_id = 1, filename = ''a.bin'', mime_type = ''application/octet-stream'', file_size = 2,
             file_data = [1, 255], sha256 = ''5a''\<rparr>],
       seq = 1, vacuum_runs = 0, compactable = True\<rparr>
     ''b.txt'' ''text/plain'' 0 [] ''e3''
   = (Inr 2, \<lparr>available = True,
       rows = [\<lparr>row_id = 1, filename = ''a.bin'', mime_type = ''application/octet-stream'', file_size = 2,
             file_data = [1, 255], sha256 = ''5a''\<rparr>,
               \<lparr>row_id = 2, filename = ''b.txt'', mime_type = ''text/plain'', file_size = 0,
             file_data = [], sha256 = ''e3''\<rparr>],
       seq = 2, vacuum_runs = 0, compactable = True\<rparr>)"
    by (simp add: store_eval)
  have c3: "insert_file \<lparr>params = [(''engine'', JStr ''sqlite''), (''database'', JStr ''files.db'')],
       engine = ''sqlite''\<rparr>
     \<lparr>available = True,
       rows = [\<lparr>row_id = 1, filename = ''a.bin'', mime_type = ''application/octet-stream'', file_size = 2,
             file_data = [1, 255], sha256 = ''5a''\<rparr>,
               \<lparr>row_id = 2, filename = ''b.txt'', mime_type = ''text/plain'', file_size = 0,
             file_data = [], sha256 = ''e3''\<rparr>],
       seq = 2, vacuum_runs = 0, compactable = True\<rparr>
     ''c.txt'' ''text/plain'' 1 [7] ''7e''
   = (Inr 3, \<lparr>available = True,
       rows = [\<lparr>row_id = 1, filename = ''a.bin'', mime_type = ''application/octet-stream'', file_size = 2,
             file_data = [1, 255], sha256 = ''5a''\<rparr>,
               \<lparr>row_id = 2, filename = ''b.txt'', mime_type = ''text/plain'', file_size = 0,
             file_data = [], sha256 = ''e3''\<rparr>,
               \<lparr>row_id = 3, filename = ''c.txt'', mime_type = ''text/plain'', file_size = 1,
             file_data = [7], sha256 = ''7e''\<rparr>],
       seq = 3, vacuum_runs = 0, compactable = True\<rparr>)"
    by (simp add: store_eval)
  have e: "rows empty_store = []" by (simp add: empty_store_def)
  show ?thesis
    using c w a b c3 e get_all_files_listing [OF c w, of "''a.bin''" "''application/octet-stream''" 2
        "[1, 255]" "''5a''" 1 "\<lparr>available = True,
       rows = [\<lparr>row_id = 1, filename = ''a.bin'', mime_type = ''application/octet-stream'', file_size = 2,
             file_data = [1, 255], sha256 = ''5a''\<rparr>],
       seq = 1, vacuum_runs = 0, compactable = True\<rparr>"
        "''b.txt''" "''text/plain''" 0 "[]" "''e3''" 2 "\<lparr>available = True,
       rows = [\<lparr>row_id = 1, filename = ''a.bin'', mime_type = ''application/octet-stream'', file_size = 2,
             file_data = [1, 255], sha256 = ''5a''\<rparr>,
               \<lparr>row_id = 2, filename = ''b.txt'', mime_type = ''text/plain'', file_size = 0,
             file_data = [], sha256 = ''e3''\<rparr>],
       seq = 2, vacuum_runs = 0, compactable = True\<rparr>"
        "''c.txt''" "''text/plain''" 1 "[7]" "''7e''" 3 "\<lparr>available = True,
       rows = [\<lparr>row_id = 1, filename = ''a.bin'', mime_type = ''application/octet-stream'', file_size = 2,
             file_data = [1, 255], sha256 = ''5a''\<rparr>,
               \<lparr>row_id = 2, filename = ''b.txt'', mime_type = ''text/plain'', file_size = 0,
             file_data = [], sha256 = ''e3''\<rparr>,
               \<lparr>row_id = 3, filename = ''c.txt'', mime_type = ''text/plain'', file_size = 1,
             file_data = [7], sha256 = ''7e''\<rparr>],
       seq = 3, vacuum_runs = 0, compactable = True\<rparr>"]
    by auto
qed

text \<open>
  C8.  \<open>get_last_file\<close>.  When a connection can be opened: on an empty table it returns
  \<open>None\<close>; on a non-empty table it returns a stored row in full, \<open>file_data\<close> included, whose
  id is the highest in the table.  Right after a successful \<open>insert_file\<close> it returns the row
  just inserted.
\<close>

theorem get_last_file_highest:
  assumes "get_connection db st = Inr ()"
  shows "(rows st = [] \<longrightarrow> get_last_file db st = Inr None) \<and>
         (rows st \<noteq> [] \<longrightarrow>
            (\<exists>r\<in>set (rows st).
               get_last_file db st =
                 Inr (Some [(''id'', VInt (row_id r)), (''filename'', VText (filename r)),
                            (''mime_type'', VText (mime_type r)),
                            (''file_size'', VInt (file_size r)),
                            (''file_data'', VBlob (file_data r)),
                            (''sha256'', VText (sha256 r))]) \<and>
               (\<forall>r'\<in>set (rows st). row_id r' \<le> row_id r))) \<and>
         (insert_file db st fname mtype fsize fdata sha = (Inr i, st1) \<longrightarrow>
            get_last_file db st1 =
              Inr (Some [(''id'', VInt i), (''filename'', VText fname), (''mime_type'', VText mtype),
                         (''file_size'', VInt fsize), (''file_data'', VBlob fdata),
                         (''sha256'', VText sha)]))"
proof (intro conjI impI)
  show "get_last_file db st = Inr None" if "rows st = []"
    using assms that
    by (simp add: get_last_file_def query_def sql_select_def run_select_def first_or_none_def)
next
  assume ne: "rows st \<noteq> []"
  let ?f = "\<lambda>r. - row_id r"
  let ?s = "sort_key ?f (rows st)"
  have "?s \<noteq> []" using ne by (metis length_sort length_0_conv)
  then obtain r rest where s: "?s = r # rest" by (cases ?s) auto
  have "set ?s = set (rows st)" by simp
  then have mem: "r \<in> set (rows st)" and all: "\<forall>y\<in>set (rows st). y \<in> set (r # rest)"
    using s by auto
  have "sorted (map ?f (r # rest))" using s sorted_sort_key [of ?f "rows st"] by simp
  then have "\<forall>y\<in>set (rows st). ?f r \<le> ?f y"
    using all sorted_hd_least [of ?f r rest] by blast
  then have top: "\<forall>r'\<in>set (rows st). row_id r' \<le> row_id r" by simp
  have "get_last_file db st =
      Inr (Some [(''id'', VInt (row_id r)), (''filename'', VText (filename r)),
                 (''mime_type'', VText (mime_type r)),
                 (''file_size'', VInt (file_size r)),
                 (''file_data'', VBlob (file_data r)),
                 (''sha256'', VText (sha256 r))])"
    using assms s
    by (simp add: get_last_file_def query_def sql_select_def run_select_def first_or_none_def
        project_def)
  with mem top show "\<exists>r\<in>set (rows st).
               get_last_file db st =
                 Inr (Some [(''id'', VInt (row_id r)), (''filename'', VText (filename r)),
                            (''mime_type'', VText (mime_type r)),
                            (''file_size'', VInt (file_size r)),
                            (''file_data'', VBlob (file_data r)),
                            (''sha256'', VText (sha256 r))]) \<and>
               (\<forall>r'\<in>set (rows st). row_id r' \<le> row_id r)"
    by blast
next
  assume ins: "insert_file db st fname mtype fsize fdata sha = (Inr i, st1)"
  show "get_last_file db st1 =
      Inr (Some [(''id'', VInt i), (''filename'', VText fname), (''mime_type'', VText mtype),
                 (''file_size'', VInt fsize), (''file_data'', VBlob fdata),
                 (''sha256'', VText sha)])"
    using insert_file_keeps_connection(2) [OF ins] sorted_rows_after_insert [OF ins]
    by (simp add: get_last_file_def query_def sql_select_def run_select_def first_or_none_def
        project_def)
qed

text \<open>
  At concrete inputs: the empty table, a table of two files, and the table after a third
  insert.
\<close>

theorem get_last_file_highest_witness:
  "get_connection \<lparr>params = [(''engine'', JStr ''sqlite''), (''database'', JStr ''files.db'')],
       engine = ''sqlite''\<rparr> empty_store = Inr () \<and>
   get_last_file \<lparr>params = [(''engine'', JStr ''sqlite''), (''database'', JStr ''files.db'')],
       engine = ''sqlite''\<rparr> empty_store = Inr None \<and>
   get_connection \<lparr>params = [(''engine'', JStr ''sqlite''), (''database'', JStr ''files.db'')],
       engine = ''sqlite''\<rparr>
     \<lparr>available = True,
       rows = [\<lparr>row_id = 1, filename = ''a.bin'', mime_type = ''application/octet-stream'', file_size = 2,
             file_data = [1, 255], sha256 = ''5a''\<rparr>,
               \<lparr>row_id = 2, filename = ''b.txt'', mime_type = ''text/plain'', file_size = 0,
             file_data = [], sha256 = ''e3''\<rparr>],
       seq = 2, vacuum_runs = 0, compactable = True\<rparr> = Inr () \<and>
   get_last_file \<lparr>params = [(''engine'', JStr ''sqlite''), (''database'', JStr ''files.db'')],
       engine = ''sqlite''\<rparr>
     \<lparr>available = True,
       rows = [\<lparr>row_id = 1, filename = ''a.bin'', mime_type = ''application/octet-stream'', file_size = 2,
             file_data = [1, 255], sha256 = ''5a''\<rparr>,
               \<lparr>row_id = 2, filename = ''b.txt'', mime_type = ''text/plain'', file_size = 0,
             file_data = [], sha256 = ''e3''\<rparr>],
       seq = 2, vacuum_runs = 0, compactable = True\<rparr>
   = Inr (Some [(''id'', VInt 2), (''filename'', VText ''b.txt''), (''mime_type'', VText ''text/plain''),
         (''file_size'', VInt 0), (''file_data'', VBlob []), (''sha256'', VText ''e3'')]) \<and>
   insert_file \<lparr>params = [(''engine'', JStr ''sqlite''), (''database'', JStr ''files.db'')],
       engine = ''sqlite''\<rparr>
     \<lparr>available = True,
       rows = [\<lparr>row_id = 1, filename = ''a.bin'', mime_type = ''application/octet-stream'', file_size = 2,
             file_data = [1, 255], sha256 = ''5a''\<rparr>,
               \<lparr>row_id = 2, filename = ''b.txt'', mime_type = ''text/plain'', file_size = 0,
             file_data = [], sha256 = ''e3''\<rparr>],
       seq = 2, vacuum_runs = 0, compactable = True\<rparr>
     ''c.txt'' ''text/plain'' 1 [7] ''7e''
   = (Inr 3, \<lparr>available = True,
       rows = [\<lparr>row_id = 1, filename = ''a.bin'', mime_type = ''application/octet-stream'', file_size = 2,
             file_data = [1, 255], sha256 = ''5a''\<rparr>,
               \<lparr>row_id = 2, filename = ''b.txt'', mime_type = ''text/plain'', file_size = 0,
             file_data = [], sha256 = ''e3''\<rparr>,
               \<lparr>row_id = 3, filename = ''c.txt'', mime_type = ''text/plain'', file_size = 1,
             file_data = [7], sha256 = ''7e''\<rparr>],
       seq = 3, vacuum_runs = 0, compactable = True\<rparr>) \<and>
   get_last_file \<lparr>params = [(''engine'', JStr ''sqlite''), (''database'', JStr ''files.db'')],
       engine = ''sqlite''\<rparr>
     \<lparr>available = True,
       rows = [\<lparr>row_id = 1, filename = ''a.bin'', mime_type = ''application/octet-stream'', file_size = 2,
             file_data = [1, 255], sha256 = ''5a''\<rparr>,
               \<lparr>row_id = 2, filename = ''b.txt'', mime_type = ''text/plain'', file_size = 0,
             file_data = [], sha256 = ''e3''\<rparr>,
               \<lparr>row_id = 3, filename = ''c.txt'', mime_type = ''text/plain'', file_size = 1,
             file_data = [7], sha256 = ''7e''\<rparr>],
       seq = 3, vacuum_runs = 0, compactable = True\<rparr>
   = Inr (Some [(''id'', VInt 3), (''filename'', VText ''c.txt''), (''mime_type'', VText ''text/plain''),
         (''file_size'', VInt 1), (''file_data'', VBlob [7]), (''sha256'', VText ''7e'')])"
proof -
  have c0: "get_connection \<lparr>params = [(''engine'', JStr ''sqlite''), (''database'', JStr ''files.db'')],
       engine = ''sqlite''\<rparr> empty_store = Inr ()"
    by (simp add: store_eval)
  have e: "rows empty_store = []" by (simp add: empty_store_def)
  have c2: "get_connection \<lparr>params = [(''engine'', JStr ''sqlite''), (''database'', JStr ''files.db'')],
       engine = ''sqlite''\<rparr>
     \<lparr>available = True,
       rows = [\<lparr>row_id = 1, filename = ''a.bin'', mime_type = ''application/octet-stream'', file_size = 2,
             file_data = [1, 255], sha256 = ''5a''\<rparr>,
               \<lparr>row_id = 2, filename = ''b.txt'', mime_type = ''text/plain'', file_size = 0,
             file_data = [], sha256 = ''e3''\<rparr>],
       seq = 2, vacuum_runs = 0, compactable = True\<rparr> = Inr ()"
    by (simp add: store_eval)
  have i3: "insert_file \<lparr>params = [(''engine'', JStr ''sqlite''), (''database'', JStr ''files.db'')],
       engine = ''sqlite''\<rparr>
     \<lparr>available = True,
       rows = [\<lparr>row_id = 1, filename = ''a.bin'', mime_type = ''application/octet-stream'', file_size = 2,
             file_data = [1, 255], sha256 = ''5a''\<rparr>,
               \<lparr>row_id = 2, filename = ''b.txt'', mime_type = ''text/plain'', file_size = 0,
             file_data = [], sha256 = ''e3''\<rparr>],
       seq = 2, vacuum_runs = 0, compactable = True\<rparr>
     ''c.txt'' ''text/plain'' 1 [7] ''7e''
   = (Inr 3, \<lparr>available = True,
       rows = [\<lparr>row_id = 1, filename = ''a.bin'', mime_type = ''application/octet-stream'', file_size = 2,
             file_data = [1, 255], sha256 = ''5a''\<rparr>,
               \<lparr>row_id = 2, filename = ''b.txt'', mime_type = ''text/plain'', file_size = 0,
             file_data = [], sha256 = ''e3''\<rparr>,
               \<lparr>row_id = 3, filename = ''c.txt'', mime_type = ''text/plain'', file_size = 1,
             file_data = [7], sha256 = ''7e''\<rparr>],
       seq = 3, vacuum_runs = 0, compactable = True\<rparr>)"
    by (simp add: store_eval)
  have l2: "get_last_file \<lparr>params = [(''engine'', JStr ''sqlite''), (''database'', JStr ''files.db'')],
       engine = ''sqlite''\<rparr>
     \<lparr>available = True,
       rows = [\<lparr>row_id = 1, filename = ''a.bin'', mime_type = ''application/octet-stream'', file_size = 2,
             file_data = [1, 255], sha256 = ''5a''\<rparr>,
               \<lparr>row_id = 2, filename = ''b.txt'', mime_type = ''text/plain'', file_size = 0,
             file_data = [], sha256 = ''e3''\<rparr>],
       seq = 2, vacuum_runs = 0, compactable = True\<rparr>
   = Inr (Some [(''id'', VInt 2), (''filename'', VText ''b.txt''), (''mime_type'', VText ''text/plain''),
         (''file_size'', VInt 0), (''file_data'', VBlob []), (''sha256'', VText ''e3'')])"
    by (simp add: store_eval)
  show ?thesis
    using c0 e c2 i3 l2
      get_last_file_highest [OF c0, of "''x''" "''y''" 0 "[]" "''z''" 1 empty_store]
      get_last_file_highest [OF c2, of "''c.txt''" "''text/plain''" 1 "[7]" "''7e''" 3 "\<lparr>available = True,
       rows = [\<lparr>row_id = 1, filename = ''a.bin'', mime_type = ''application/octet-stream'', file_size = 2,
             file_data = [1, 255], sha256 = ''5a''\<rparr>,
               \<lparr>row_id = 2, filename = ''b.txt'', mime_type = ''text/plain'', file_size = 0,
             file_data = [], sha256 = ''e3''\<rparr>,
               \<lparr>row_id = 3, filename = ''c.txt'', mime_type = ''text/plain'', file_size = 1,
             file_data = [7], sha256 = ''7e''\<rparr>],
       seq = 3, vacuum_runs = 0, compactable = True\<rparr>"]
    by simp
qed

end
